theory Spec2Isabelle
  imports Main "HOL-Library.AList"
begin

section \<open>Data model\<close>

text \<open>
  The operator talks to a Kubernetes object store through a client and to Go's crypto
  library. Neither is part of the repository, so both are parameters of the model: every
  call that leaves the package is a value of \<open>call\<close>, the answer is a \<open>reply\<close>, and
  an \<open>exec\<close> function (the environment) maps a call and the current world to a reply and
  the next world. The model keeps a trace of the calls it has issued with their replies.
\<close>

type_synonym bytes = string

datatype error = NotFound | Failure string

text \<open>\<open>errors.IsNotFound\<close> of k8s.io/apimachinery.\<close>

definition IsNotFound :: "error \<Rightarrow> bool" where
  "IsNotFound e = (e = NotFound)"

text \<open>A point in time; \<open>AddDate t y m d\<close> stands for Go's \<open>t.AddDate(y, m, d)\<close>.\<close>

datatype gotime = Instant nat | AddDate gotime nat nat nat

text \<open>\<open>mcov1beta1.StatusCondition\<close>, the fields status.go reads.\<close>

record StatusCondition =
  sc_Type :: string
  sc_Status :: string
  sc_LastTransitionTime :: gotime
  sc_Reason :: string
  sc_Message :: string

text \<open>\<open>metav1.Condition\<close>.\<close>

record Condition =
  Type :: string
  Status :: string
  ObservedGeneration :: int
  LastTransitionTime :: gotime
  Reason :: string
  Message :: string

text \<open>
  Go slices are lists here. A nil slice and an empty one are both \<open>[]\<close> wherever the
  code treats them alike (\<open>len\<close>, \<open>range\<close>, and \<open>reflect.DeepEqual\<close> against a slice that
  is never empty).
\<close>

record ObservabilityAddon =
  oa_Namespace :: string
  oa_Conditions :: "StatusCondition list"

record ManagedClusterAddOn =
  mca_Name :: string
  mca_Namespace :: string
  mca_Conditions :: "Condition list"


record PlacementDecision =
  ClusterName :: string
  ClusterNamespace :: string

text \<open>\<open>corev1.Secret\<close>; \<open>Data\<close> is a Go map, kept as an association list.\<close>

record Secret =
  sec_Name :: string
  sec_Namespace :: string
  sec_Data :: "(string \<times> bytes) list"

record MultiClusterObservability =
  mco_Name :: string
  mco_Namespace :: string
  mco_ImagePullSecret :: string

record Request =
  req_Namespace :: string
  req_Name :: string

datatype rsa_PrivateKey = RSAKey nat

datatype KeyUsage = KeyUsageDigitalSignature | KeyUsageKeyEncipherment | KeyUsageCertSign

datatype ExtKeyUsage = ExtKeyUsageServerAuth | ExtKeyUsageClientAuth

record pkix_Name =
  Organization :: "string list"
  Country :: "string list"
  OrganizationalUnit :: "string list"
  CommonName :: string

text \<open>\<open>x509.Certificate\<close>, the fields certificates.go sets.\<close>

record Certificate =
  SerialNumber :: nat
  Subject :: pkix_Name
  NotBefore :: gotime
  NotAfter :: gotime
  IsCA :: bool
  KeyUsage :: "KeyUsage list"
  ExtKeyUsage :: "ExtKeyUsage list"
  BasicConstraintsValid :: bool
  DNSNames :: "string list"
  IPAddresses :: "bytes list"

subsection \<open>Calls that leave the package\<close>

text \<open>
  The client: \<open>GetManagedClusterAddOn name namespace\<close> and \<open>GetSecret namespace name\<close>
  are \<open>c.Get\<close> of an object of that kind, \<open>StatusUpdate\<close> is \<open>c.Status().Update\<close>,
  \<open>DeleteManagedClusterAddOn name namespace\<close> is \<open>c.Delete\<close>, \<open>CreateSecret\<close> and
  \<open>UpdateSecret\<close> are \<open>c.Create\<close> and \<open>c.Update\<close>, and \<open>SetControllerReference\<close> is
  the function of controllerutil. The calls from \<open>CreateClusterRole\<close> to
  \<open>DeleteManifestWork\<close> are the functions of the package and of \<open>util\<close> of those names
  that are not in the sources, with their arguments in the order of the source (the client
  is left out). \<open>RandInt\<close> is \<open>rand.Int(rand.Reader, serialNumberLimit)\<close>, \<open>TimeNow\<close> is
  \<open>time.Now()\<close>, \<open>GenerateKey bits\<close> is \<open>rsa.GenerateKey\<close>, and
  \<open>X509CreateCertificate template parent pub priv\<close> is \<open>x509.CreateCertificate\<close>, the
  public key given by the private key it belongs to.
\<close>

datatype call =
    GetManagedClusterAddOn string string
  | StatusUpdate ManagedClusterAddOn
  | DeleteManagedClusterAddOn string string
  | GetSecret string string
  | CreateSecret Secret
  | UpdateSecret Secret
  | SetControllerReference MultiClusterObservability Secret
  | CreateClusterRole
  | CreateResourceRole
  | CreateClusterManagementAddon
  | DeleteClusterRole
  | DeleteResourceRole
  | DeleteClusterManagementAddon
  | CreateObsAddon string
  | CreateRolebindings string string
  | CreateManifestWorks string string MultiClusterObservability "Secret option"
  | CreateManagedClusterAddonCR string
  | DeleteObsAddon string
  | DeleteRolebindings string
  | DeleteManifestWorks string
  | DeleteManifestWork string string
  | RandInt
  | TimeNow
  | GenerateKey nat
  | X509CreateCertificate Certificate Certificate rsa_PrivateKey rsa_PrivateKey

datatype val =
    NoVal
  | SecretVal Secret
  | AddOnVal ManagedClusterAddOn
  | IntVal nat
  | TimeVal gotime
  | KeyVal rsa_PrivateKey
  | BytesVal bytes

datatype reply = Err error | Ok val

type_synonym 'w exec = "call \<Rightarrow> 'w \<Rightarrow> reply \<times> 'w"

text \<open>
  The process state: the world behind the client, the trace of calls issued so far, and
  the two package-level flags of placementrule_controller.go.
\<close>

record 'w state =
  world :: 'w
  trace :: "(call \<times> reply) list"
  isCRoleCreated :: bool
  isClusterManagementAddonCreated :: bool

definition invoke :: "'w exec \<Rightarrow> call \<Rightarrow> 'w state \<Rightarrow> reply \<times> 'w state" where
  "invoke ex c st =
     (case ex c (world st) of
        (r, w') \<Rightarrow> (r, st\<lparr>world := w', trace := trace st @ [(c, r)]\<rparr>))"

text \<open>
  What a successful \<open>Get\<close> leaves in the object it was given: the value of the reply, or
  the zero value the caller allocated when the reply carries none.
\<close>

fun addon_of :: "val \<Rightarrow> ManagedClusterAddOn" where
  "addon_of (AddOnVal m) = m"
| "addon_of _ = \<lparr>mca_Name = [], mca_Namespace = [], mca_Conditions = []\<rparr>"

fun secret_of :: "val \<Rightarrow> Secret" where
  "secret_of (SecretVal s) = s"
| "secret_of _ = \<lparr>sec_Name = [], sec_Namespace = [], sec_Data = []\<rparr>"

text \<open>The calls of a run: what the trace gained between two states.\<close>

definition issued :: "'w state \<Rightarrow> 'w state \<Rightarrow> (call \<times> reply) list" where
  "issued st st' = drop (length (trace st)) (trace st')"

section \<open>status.go\<close>

definition statusMap :: "(string \<times> string) list" where
  "statusMap =
     [(''Available'', ''Available''),
      (''Progressing'', ''Progressing''),
      (''Deployed'', ''Progressing''),
      (''Disabled'', ''Degraded''),
      (''Degraded'', ''Degraded''),
      (''NotSupported'', ''Degraded'')]"

text \<open>Go's \<open>statusMap[k]\<close>: the zero value \<open>""\<close> for a key that is not in the map.\<close>

definition statusMap_index :: "string \<Rightarrow> string" where
  "statusMap_index k = (case map_of statusMap k of Some v \<Rightarrow> v | None \<Rightarrow> [])"

text \<open>Lines 38-44: the condition built from one add-on condition.\<close>

definition convertCondition :: "StatusCondition \<Rightarrow> Condition" where
  "convertCondition c =
     \<lparr>Type = statusMap_index (sc_Type c),
      Status = sc_Status c,
      ObservedGeneration = 0,
      LastTransitionTime = sc_LastTransitionTime c,
      Reason = sc_Reason c,
      Message = sc_Message c\<rparr>"

text \<open>Lines 36-46: the inner loop appends one converted condition per input condition.\<close>

fun convertConditions :: "Condition list \<Rightarrow> StatusCondition list \<Rightarrow> Condition list" where
  "convertConditions conditions [] = conditions"
| "convertConditions conditions (c # cs) =
     convertConditions (conditions @ [convertCondition c]) cs"

text \<open>
  Lines 33-68, the body of the loop over the add-ons. \<open>Some e\<close> is \<open>return err\<close>;
  \<open>None\<close> is \<open>continue\<close> or the end of the body. \<open>managedClusterAddonName\<close> is the
  constant \<open>util.ManagedClusterAddonName\<close>, which is not in the sources.
\<close>

definition updateAddonStatus_body ::
  "'w exec \<Rightarrow> string \<Rightarrow> ObservabilityAddon \<Rightarrow> 'w state \<Rightarrow> error option \<times> 'w state" where
  "updateAddonStatus_body ex managedClusterAddonName addon st =
     (if oa_Conditions addon = [] then (None, st)
      else
        let conditions = convertConditions [] (oa_Conditions addon) in
        (case invoke ex (GetManagedClusterAddOn managedClusterAddonName (oa_Namespace addon)) st of
           (Err err, st1) \<Rightarrow> if IsNotFound err then (None, st1) else (Some err, st1)
         | (Ok v, st1) \<Rightarrow>
             let managedclusteraddon = addon_of v in
             if conditions \<noteq> mca_Conditions managedclusteraddon then
               (case invoke ex (StatusUpdate (managedclusteraddon\<lparr>mca_Conditions := conditions\<rparr>)) st1 of
                  (Err err, st2) \<Rightarrow> (Some err, st2)
                | (Ok _, st2) \<Rightarrow> (None, st2))
             else (None, st1)))"

fun updateAddonStatus ::
  "'w exec \<Rightarrow> string \<Rightarrow> ObservabilityAddon list \<Rightarrow> 'w state \<Rightarrow> error option \<times> 'w state" where
  "updateAddonStatus ex n [] st = (None, st)"
| "updateAddonStatus ex n (addon # rest) st =
     (case updateAddonStatus_body ex n addon st of
        (Some err, st') \<Rightarrow> (Some err, st')
      | (None, st') \<Rightarrow> updateAddonStatus ex n rest st')"

section \<open>placementrule_controller.go\<close>

text \<open>
  Constants and pure helpers of the packages \<open>util\<close> and \<open>config\<close> and of
  manifestwork.go that the sources under study use and do not hold: they are parameters.
\<close>

record deps =
  util_Remove :: "string list \<Rightarrow> string \<Rightarrow> string list"
  util_Contains :: "string list \<Rightarrow> string \<Rightarrow> bool"
  workNameSuffix :: string
  watchNamespace :: string
  ManagedClusterAddonName :: string
  defaultNamespace :: string
  serverCACerts :: string
  clientCACerts :: string
  pem_Decode :: "bytes \<Rightarrow> bytes option"
  pem_Encode :: "string \<Rightarrow> bytes \<Rightarrow> bytes"
  x509_ParsePKCS1PrivateKey :: "bytes \<Rightarrow> error + rsa_PrivateKey"
  x509_ParseCertificate :: "bytes \<Rightarrow> error + Certificate"
  x509_MarshalPKCS1PrivateKey :: "rsa_PrivateKey \<Rightarrow> bytes"

text \<open>
  Lines 317-344. \<open>restMapper\<close> is only handed on to \<open>createManifestWorks\<close> and is left
  out.
\<close>

definition createManagedClusterRes ::
  "'w exec \<Rightarrow> MultiClusterObservability \<Rightarrow> Secret option \<Rightarrow> string \<Rightarrow> string \<Rightarrow> 'w state
   \<Rightarrow> error option \<times> 'w state" where
  "createManagedClusterRes ex mco imagePullSecret name namespace st =
     (case invoke ex (CreateObsAddon namespace) st of
        (Err err, st1) \<Rightarrow> (Some err, st1)
      | (Ok _, st1) \<Rightarrow>
     (case invoke ex (CreateRolebindings namespace name) st1 of
        (Err err, st2) \<Rightarrow> (Some err, st2)
      | (Ok _, st2) \<Rightarrow>
     (case invoke ex (CreateManifestWorks namespace name mco imagePullSecret) st2 of
        (Err err, st3) \<Rightarrow> (Some err, st3)
      | (Ok _, st3) \<Rightarrow>
     (case invoke ex (CreateManagedClusterAddonCR namespace) st3 of
        (Err err, st4) \<Rightarrow> (Some err, st4)
      | (Ok _, st4) \<Rightarrow> (None, st4)))))"


text \<open>Lines 298-315.\<close>

definition deleteGlobalResource :: "'w exec \<Rightarrow> 'w state \<Rightarrow> error option \<times> 'w state" where
  "deleteGlobalResource ex st =
     (case invoke ex DeleteClusterRole st of
        (Err err, st1) \<Rightarrow> (Some err, st1)
      | (Ok _, st1) \<Rightarrow>
     (case invoke ex DeleteResourceRole st1 of
        (Err err, st2) \<Rightarrow> (Some err, st2)
      | (Ok _, st2) \<Rightarrow>
     (case invoke ex DeleteClusterManagementAddon (st2\<lparr>isCRoleCreated := False\<rparr>) of
        (Err err, st3) \<Rightarrow> (Some err, st3)
      | (Ok _, st3) \<Rightarrow> (None, st3\<lparr>isClusterManagementAddonCreated := False\<rparr>))))"

text \<open>
  Lines 255-265, the loop over the placement decisions. It carries \<open>currentClusters\<close>
  and \<open>failedCreateManagedClusterRes\<close>.
\<close>

fun decisionsLoop ::
  "'w exec \<Rightarrow> deps \<Rightarrow> MultiClusterObservability \<Rightarrow> Secret option \<Rightarrow> PlacementDecision list
   \<Rightarrow> string list \<Rightarrow> bool \<Rightarrow> 'w state \<Rightarrow> (string list \<times> bool) \<times> 'w state" where
  "decisionsLoop ex D mco imagePullSecret [] currentClusters failed st =
     ((currentClusters, failed), st)"
| "decisionsLoop ex D mco imagePullSecret (decision # rest) currentClusters failed st =
     (case createManagedClusterRes ex mco imagePullSecret
             (ClusterName decision) (ClusterNamespace decision) st of
        (err, st') \<Rightarrow>
          decisionsLoop ex D mco imagePullSecret rest
            (util_Remove D currentClusters (ClusterNamespace decision))
            (if err \<noteq> None then True else failed) st')"

text \<open>Lines 267-275, the loop over the clusters left in \<open>currentClusters\<close>.\<close>

fun deleteObaLoop :: "'w exec \<Rightarrow> string list \<Rightarrow> bool \<Rightarrow> 'w state \<Rightarrow> bool \<times> 'w state" where
  "deleteObaLoop ex [] failed st = (failed, st)"
| "deleteObaLoop ex (cluster # rest) failed st =
     (case invoke ex (DeleteObsAddon cluster) st of
        (Err err, st') \<Rightarrow> deleteObaLoop ex rest True st'
      | (Ok _, st') \<Rightarrow> deleteObaLoop ex rest failed st')"

definition failedMessage :: string where
  "failedMessage = ''Failed to create managedcluster resources or'' @
     '' failed to delete observabilityaddon, skip and reconcile later''"

text \<open>
  Lines 248-282 of \<open>createAllRelatedRes\<close>: the part after the image-pull secret has been
  resolved. The \<open>ctrl.Result\<close> it returns is always empty and is left out.
\<close>

definition createAllRelatedRes_members ::
  "'w exec \<Rightarrow> deps \<Rightarrow> MultiClusterObservability \<Rightarrow> Secret option \<Rightarrow> PlacementDecision list
   \<Rightarrow> ObservabilityAddon list \<Rightarrow> 'w state \<Rightarrow> error option \<times> 'w state" where
  "createAllRelatedRes_members ex D mco imagePullSecret decisions obsAddonList st =
     (case decisionsLoop ex D (mco\<lparr>mco_Namespace := watchNamespace D\<rparr>) imagePullSecret decisions
             (map oa_Namespace obsAddonList) False st of
        ((currentClusters, failedCreateManagedClusterRes), st1) \<Rightarrow>
     (case deleteObaLoop ex currentClusters False st1 of
        (failedDeleteOba, st2) \<Rightarrow>
          if failedCreateManagedClusterRes \<or> failedDeleteOba
          then (Some (Failure failedMessage), st2)
          else (None, st2)))"

text \<open>
  Lines 213-232 of \<open>createAllRelatedRes\<close>: the cluster-scoped resources, created once
  per process under the two flags.
\<close>

definition createAllRelatedRes_global :: "'w exec \<Rightarrow> 'w state \<Rightarrow> error option \<times> 'w state" where
  "createAllRelatedRes_global ex st =
     (case (if \<not> isCRoleCreated st then
              (case invoke ex CreateClusterRole st of
                 (Err err, s1) \<Rightarrow> (Some err, s1)
               | (Ok _, s1) \<Rightarrow>
              (case invoke ex CreateResourceRole s1 of
                 (Err err, s2) \<Rightarrow> (Some err, s2)
               | (Ok _, s2) \<Rightarrow> (None, s2\<lparr>isCRoleCreated := True\<rparr>)))
            else (None, st)) of
        (Some err, sa) \<Rightarrow> (Some err, sa)
      | (None, sa) \<Rightarrow>
          if \<not> isClusterManagementAddonCreated sa then
            (case invoke ex CreateClusterManagementAddon sa of
               (Err err, s1) \<Rightarrow> (Some err, s1)
             | (Ok _, s1) \<Rightarrow> (None, s1\<lparr>isClusterManagementAddonCreated := True\<rparr>))
          else (None, sa))"

text \<open>Lines 205-283.\<close>

definition createAllRelatedRes ::
  "'w exec \<Rightarrow> deps \<Rightarrow> Request \<Rightarrow> MultiClusterObservability \<Rightarrow> PlacementDecision list
   \<Rightarrow> ObservabilityAddon list \<Rightarrow> 'w state \<Rightarrow> error option \<times> 'w state" where
  "createAllRelatedRes ex D request mco decisions obsAddonList st =
     (case createAllRelatedRes_global ex st of
        (Some err, sb) \<Rightarrow> (Some err, sb)
      | (None, sb) \<Rightarrow>
     (case invoke ex (GetSecret (req_Namespace request) (mco_ImagePullSecret mco)) sb of
        (Err err, sc) \<Rightarrow>
          if IsNotFound err
          then createAllRelatedRes_members ex D mco None decisions obsAddonList sc
          else (Some err, sc)
      | (Ok v, sc) \<Rightarrow>
          createAllRelatedRes_members ex D mco (Some (secret_of v)) decisions obsAddonList sc))"


section \<open>certificates.go\<close>

text \<open>
  A Go slice with what slicing can see of it: \<open>Slice xs spare\<close> has the elements \<open>xs\<close>
  and, behind them, the rest \<open>spare\<close> of its backing array up to the capacity.
\<close>

datatype 'a slice = NilSlice | Slice "'a list" "'a list"

fun elems :: "'a slice \<Rightarrow> 'a list" where
  "elems NilSlice = []"
| "elems (Slice xs spare) = xs"

text \<open>A function of the package either returns or panics.\<close>

datatype 'a outcome = Panic | Return 'a

text \<open>Go's \<open>m[k]\<close> on a map of byte slices: nil (no bytes) for a key that is absent.\<close>

definition data_at :: "(string \<times> bytes) list \<Rightarrow> string \<Rightarrow> bytes" where
  "data_at d k = (case map_of d k of Some b \<Rightarrow> b | None \<Rightarrow> [])"

text \<open>
  The three assignments \<open>Data["ca.crt"] = ..., Data["tls.crt"] = ..., Data["tls.key"] = ...\<close>.
  A secret without data comes back from the store with a nil map, and an assignment to an
  entry of a nil map panics.
\<close>

definition data_store ::
  "(string \<times> bytes) list \<Rightarrow> bytes \<Rightarrow> bytes \<Rightarrow> bytes \<Rightarrow> (string \<times> bytes) list outcome" where
  "data_store d ca crt key =
     (if d = [] then Panic
      else Return (AList.update ''tls.key'' key
                    (AList.update ''tls.crt'' crt (AList.update ''ca.crt'' ca d))))"

text \<open>\<open>time.Now()\<close>: the zero time when the environment answers with no time.\<close>

definition now :: "'w exec \<Rightarrow> 'w state \<Rightarrow> gotime \<times> 'w state" where
  "now ex st =
     (case invoke ex TimeNow st of
        (Ok (TimeVal t), st') \<Rightarrow> (t, st')
      | (_, st') \<Rightarrow> (Instant 0, st'))"

fun nat_of :: "val \<Rightarrow> nat" where
  "nat_of (IntVal n) = n"
| "nat_of _ = 0"

fun key_of :: "val \<Rightarrow> rsa_PrivateKey" where
  "key_of (KeyVal k) = k"
| "key_of _ = RSAKey 0"

fun bytes_of :: "val \<Rightarrow> bytes" where
  "bytes_of (BytesVal b) = b"
| "bytes_of _ = []"

text \<open>Lines 340-354.\<close>

definition pemEncode :: "deps \<Rightarrow> bytes \<Rightarrow> bytes \<Rightarrow> bytes \<times> bytes" where
  "pemEncode D cert key = (pem_Encode D ''CERTIFICATE'' cert, pem_Encode D ''RSA PRIVATE KEY'' key)"

text \<open>Lines 147-181.\<close>

definition createCACertificate ::
  "'w exec \<Rightarrow> deps \<Rightarrow> string \<Rightarrow> rsa_PrivateKey option \<Rightarrow> 'w state
   \<Rightarrow> (error + bytes \<times> bytes) \<times> 'w state" where
  "createCACertificate ex D cn caKey st =
     (case invoke ex RandInt st of
        (Err err, st1) \<Rightarrow> (Inl err, st1)
      | (Ok sn, st1) \<Rightarrow>
     (case now ex st1 of (notBefore, st2) \<Rightarrow>
     (case now ex st2 of (t, st3) \<Rightarrow>
        let ca = \<lparr>SerialNumber = nat_of sn,
                  Subject = \<lparr>Organization = [''Red Hat, Inc.''], Country = [''US''],
                             OrganizationalUnit = [], CommonName = cn\<rparr>,
                  NotBefore = notBefore,
                  NotAfter = AddDate t 5 0 0,
                  IsCA = True,
                  KeyUsage = [KeyUsageDigitalSignature, KeyUsageKeyEncipherment, KeyUsageCertSign],
                  ExtKeyUsage = [],
                  BasicConstraintsValid = True,
                  DNSNames = [],
                  IPAddresses = []\<rparr>
        in
     (case (case caKey of
              None \<Rightarrow>
                (case invoke ex (GenerateKey 2048) st3 of
                   (Err err, st4) \<Rightarrow> (Inl err, st4)
                 | (Ok k, st4) \<Rightarrow> (Inr (key_of k), st4))
            | Some k \<Rightarrow> (Inr k, st3)) of
        (Inl err, st4) \<Rightarrow> (Inl err, st4)
      | (Inr key, st4) \<Rightarrow>
     (case invoke ex (X509CreateCertificate ca ca key key) st4 of
        (Err err, st5) \<Rightarrow> (Inl err, st5)
      | (Ok caBytes, st5) \<Rightarrow>
          (Inr (x509_MarshalPKCS1PrivateKey D key, bytes_of caBytes), st5))))))"

text \<open>
  Lines 286-292. \<open>dns[:1]\<close> reads the first cell of the backing array and panics when the
  capacity is 0; \<open>append(dns[:1], dns[0:]...)\<close> puts the elements behind that cell;
  \<open>dns[0] = cn\<close> overwrites it.
\<close>

definition dnsNames :: "string \<Rightarrow> string slice \<Rightarrow> string list outcome" where
  "dnsNames cn dns =
     (case dns of
        NilSlice \<Rightarrow> Return [cn]
      | Slice xs spare \<Rightarrow>
          if length (xs @ spare) < 1 then Panic
          else Return ((take 1 (xs @ spare) @ xs)[0 := cn]))"

text \<open>Lines 261-312.\<close>

definition createCertificate ::
  "'w exec \<Rightarrow> deps \<Rightarrow> bool \<Rightarrow> string \<Rightarrow> string slice \<Rightarrow> string slice \<Rightarrow> bytes slice
   \<Rightarrow> Certificate \<Rightarrow> rsa_PrivateKey \<Rightarrow> rsa_PrivateKey option \<Rightarrow> 'w state
   \<Rightarrow> (error + bytes \<times> bytes) outcome \<times> 'w state" where
  "createCertificate ex D isServer cn ou dns ips caCert caKey key st =
     (case invoke ex RandInt st of
        (Err err, st1) \<Rightarrow> (Return (Inl err), st1)
      | (Ok sn, st1) \<Rightarrow>
     (case now ex st1 of (notBefore, st2) \<Rightarrow>
     (case now ex st2 of (t, st3) \<Rightarrow>
     (case dnsNames cn dns of
        Panic \<Rightarrow> (Panic, st3)
      | Return names \<Rightarrow>
        let cert = \<lparr>SerialNumber = nat_of sn,
                    Subject = \<lparr>Organization = [''Red Hat, Inc.''], Country = [''US''],
                               OrganizationalUnit = elems ou, CommonName = cn\<rparr>,
                    NotBefore = notBefore,
                    NotAfter = AddDate t 1 0 0,
                    IsCA = False,
                    KeyUsage = [KeyUsageDigitalSignature, KeyUsageKeyEncipherment],
                    ExtKeyUsage = (if \<not> isServer then [ExtKeyUsageClientAuth]
                                   else [ExtKeyUsageServerAuth]),
                    BasicConstraintsValid = False,
                    DNSNames = names,
                    IPAddresses = elems ips\<rparr>
        in
     (case (case key of
              None \<Rightarrow>
                (case invoke ex (GenerateKey 2048) st3 of
                   (Err err, st4) \<Rightarrow> (Inl err, st4)
                 | (Ok k, st4) \<Rightarrow> (Inr (key_of k), st4))
            | Some k \<Rightarrow> (Inr k, st3)) of
        (Inl err, st4) \<Rightarrow> (Return (Inl err), st4)
      | (Inr k, st4) \<Rightarrow>
     (case invoke ex (X509CreateCertificate cert caCert k caKey) st4 of
        (Err err, st5) \<Rightarrow> (Return (Inl err), st5)
      | (Ok caBytes, st5) \<Rightarrow>
          (Return (Inr (x509_MarshalPKCS1PrivateKey D k, bytes_of caBytes)), st5)))))))"

text \<open>Lines 314-338. \<open>block.Bytes\<close> of a nil block panics.\<close>

definition getCA ::
  "'w exec \<Rightarrow> deps \<Rightarrow> bool \<Rightarrow> 'w state
   \<Rightarrow> (error + Secret \<times> Certificate \<times> rsa_PrivateKey) outcome \<times> 'w state" where
  "getCA ex D isServer st =
     (let caCertName = (if \<not> isServer then clientCACerts D else serverCACerts D) in
      case invoke ex (GetSecret (defaultNamespace D) caCertName) st of
        (Err err, st1) \<Rightarrow> (Return (Inl err), st1)
      | (Ok v, st1) \<Rightarrow>
          let caSecret = secret_of v in
          (case pem_Decode D (data_at (sec_Data caSecret) ''tls.crt'') of
             None \<Rightarrow> (Panic, st1)
           | Some block1 \<Rightarrow>
          (case x509_ParseCertificate D block1 of
             Inl err \<Rightarrow> (Return (Inl err), st1)
           | Inr caCert \<Rightarrow>
          (case pem_Decode D (data_at (sec_Data caSecret) ''tls.key'') of
             None \<Rightarrow> (Panic, st1)
           | Some block2 \<Rightarrow>
          (case x509_ParsePKCS1PrivateKey D block2 of
             Inl err \<Rightarrow> (Return (Inl err), st1)
           | Inr caKey \<Rightarrow> (Return (Inr (caSecret, caCert, caKey)), st1))))))"

text \<open>
  What \<open>controllerutil.SetControllerReference\<close> leaves in the secret it was given.
\<close>

fun owned :: "val \<Rightarrow> Secret \<Rightarrow> Secret" where
  "owned (SecretVal s) _ = s"
| "owned _ s = s"

text \<open>Lines 79-145. \<open>scheme\<close> is only handed on to \<open>SetControllerReference\<close>.\<close>

definition createCASecret ::
  "'w exec \<Rightarrow> deps \<Rightarrow> MultiClusterObservability \<Rightarrow> bool \<Rightarrow> string \<Rightarrow> string \<Rightarrow> 'w state
   \<Rightarrow> error option outcome \<times> 'w state" where
  "createCASecret ex D mco isRenew name cn st =
     (case invoke ex (GetSecret (defaultNamespace D) name) st of
        (Err err, st1) \<Rightarrow>
          if \<not> IsNotFound err then (Return (Some err), st1)
          else if \<not> isRenew then
            (case createCACertificate ex D cn None st1 of
               (Inl err, st2) \<Rightarrow> (Return (Some err), st2)
             | (Inr (key, cert), st2) \<Rightarrow>
                 (case pemEncode D cert key of (certPEM, keyPEM) \<Rightarrow>
                    let caSecret = \<lparr>sec_Name = name, sec_Namespace = defaultNamespace D,
                                    sec_Data = [(''ca.crt'', certPEM), (''tls.crt'', certPEM),
                                                (''tls.key'', keyPEM)]\<rparr>
                    in
                 (case invoke ex (SetControllerReference mco caSecret) st2 of
                    (Err err, st3) \<Rightarrow> (Return (Some err), st3)
                  | (Ok v, st3) \<Rightarrow>
                 (case invoke ex (CreateSecret (owned v caSecret)) st3 of
                    (Err err, st4) \<Rightarrow> (Return (Some err), st4)
                  | (Ok _, st4) \<Rightarrow> (Return None, st4)))))
          else (Return None, st1)
      | (Ok v, st1) \<Rightarrow>
          let caSecret = secret_of v in
          if \<not> isRenew then (Return None, st1)
          else
            (case pem_Decode D (data_at (sec_Data caSecret) ''tls.key'') of
               None \<Rightarrow> (Panic, st1)
             | Some block \<Rightarrow>
                 let caKey = (case x509_ParsePKCS1PrivateKey D block of
                                Inl err \<Rightarrow> None
                              | Inr k \<Rightarrow> Some k)
                 in
            (case createCACertificate ex D cn caKey st1 of
               (Inl err, st2) \<Rightarrow> (Return (Some err), st2)
             | (Inr (key, cert), st2) \<Rightarrow>
                 (case pemEncode D cert key of (certPEM, keyPEM) \<Rightarrow>
                 (case data_store (sec_Data caSecret) certPEM certPEM keyPEM of
                    Panic \<Rightarrow> (Panic, st2)
                  | Return d \<Rightarrow>
                 (case invoke ex (UpdateSecret (caSecret\<lparr>sec_Data := d\<rparr>)) st2 of
                    (Err err, st3) \<Rightarrow> (Return (Some err), st3)
                  | (Ok _, st3) \<Rightarrow> (Return None, st3)))))))"

text \<open>Lines 183-259.\<close>

definition createCertSecret ::
  "'w exec \<Rightarrow> deps \<Rightarrow> MultiClusterObservability \<Rightarrow> bool \<Rightarrow> string \<Rightarrow> bool \<Rightarrow> string
   \<Rightarrow> string slice \<Rightarrow> string slice \<Rightarrow> bytes slice \<Rightarrow> 'w state
   \<Rightarrow> error option outcome \<times> 'w state" where
  "createCertSecret ex D mco isRenew name isServer cn ou dns ips st =
     (case invoke ex (GetSecret (defaultNamespace D) name) st of
        (Err err, st1) \<Rightarrow>
          if \<not> IsNotFound err then (Return (Some err), st1)
          else if \<not> isRenew then
            (case getCA ex D isServer st1 of
               (Panic, st2) \<Rightarrow> (Panic, st2)
             | (Return (Inl err), st2) \<Rightarrow> (Return (Some err), st2)
             | (Return (Inr (caSecret, caCert, caKey)), st2) \<Rightarrow>
            (case createCertificate ex D isServer cn ou dns ips caCert caKey None st2 of
               (Panic, st3) \<Rightarrow> (Panic, st3)
             | (Return (Inl err), st3) \<Rightarrow> (Return (Some err), st3)
             | (Return (Inr (key, cert)), st3) \<Rightarrow>
                 (case pemEncode D cert key of (certPEM, keyPEM) \<Rightarrow>
                    let crtSecret = \<lparr>sec_Name = name, sec_Namespace = defaultNamespace D,
                                     sec_Data = [(''ca.crt'', data_at (sec_Data caSecret) ''tls.crt''),
                                                 (''tls.crt'', certPEM), (''tls.key'', keyPEM)]\<rparr>
                    in
                 (case invoke ex (SetControllerReference mco crtSecret) st3 of
                    (Err err, st4) \<Rightarrow> (Return (Some err), st4)
                  | (Ok v, st4) \<Rightarrow>
                 (case invoke ex (CreateSecret (owned v crtSecret)) st4 of
                    (Err err, st5) \<Rightarrow> (Return (Some err), st5)
                  | (Ok _, st5) \<Rightarrow> (Return None, st5))))))
          else (Return None, st1)
      | (Ok v, st1) \<Rightarrow>
          let crtSecret = secret_of v in
          if \<not> isRenew then (Return None, st1)
          else
            (case getCA ex D isServer st1 of
               (Panic, st2) \<Rightarrow> (Panic, st2)
             | (Return (Inl err), st2) \<Rightarrow> (Return (Some err), st2)
             | (Return (Inr (caSecret, caCert, caKey)), st2) \<Rightarrow>
            (case pem_Decode D (data_at (sec_Data crtSecret) ''tls.key'') of
               None \<Rightarrow> (Panic, st2)
             | Some block \<Rightarrow>
                 let crtkey = (case x509_ParsePKCS1PrivateKey D block of
                                 Inl err \<Rightarrow> None
                               | Inr k \<Rightarrow> Some k)
                 in
            (case createCertificate ex D isServer cn ou dns ips caCert caKey crtkey st2 of
               (Panic, st3) \<Rightarrow> (Panic, st3)
             | (Return (Inl err), st3) \<Rightarrow> (Return (Some err), st3)
             | (Return (Inr (key, cert)), st3) \<Rightarrow>
                 (case pemEncode D cert key of (certPEM, keyPEM) \<Rightarrow>
                 (case data_store (sec_Data crtSecret)
                         (data_at (sec_Data caSecret) ''tls.crt'') certPEM keyPEM of
                    Panic \<Rightarrow> (Panic, st3)
                  | Return d \<Rightarrow>
                 (case invoke ex (UpdateSecret (crtSecret\<lparr>sec_Data := d\<rparr>)) st3 of
                    (Err err, st4) \<Rightarrow> (Return (Some err), st4)
                  | (Ok _, st4) \<Rightarrow> (Return None, st4))))))))"

section \<open>The manifests of a bundle\<close>

text \<open>
  Modelled from the spec: \<open>createManifestWorks\<close> (manifestwork.go) is not in the sources;
  only its test is. The spec says that the bundle of a member holds the manifests rendered
  for it and, when an image-pull secret is given, one manifest more for that secret, and
  that without the secret "the bundle degrades gracefully by omitting the pull-secret
  manifest". \<open>rendered\<close> stands for the manifests that do not depend on the secret.
\<close>

datatype 'm manifest = Rendered 'm | PullSecret Secret

definition bundleManifests :: "'m list \<Rightarrow> Secret option \<Rightarrow> 'm manifest list" where
  "bundleManifests rendered imagePullSecret =
     map Rendered rendered @
     (case imagePullSecret of None \<Rightarrow> [] | Some pull \<Rightarrow> [PullSecret pull])"

section \<open>Environments and inputs for concrete runs\<close>

text \<open>An environment in which the listed calls fail and every other call succeeds.\<close>

definition failingOn :: "call list \<Rightarrow> unit exec" where
  "failingOn bad c w =
     (if List.member bad c then (Err (Failure ''injected''), w) else (Ok NoVal, w))"

text \<open>An environment in which every call fails with the same error.\<close>

definition brokenClient :: "error \<Rightarrow> unit exec" where
  "brokenClient e c w = (Err e, w)"

text \<open>
  A store of add-on objects, as the fake client of the tests keeps one: reads find the
  object by name and namespace, status updates replace it.
\<close>

definition storeClient :: "ManagedClusterAddOn list exec" where
  "storeClient c w =
     (case c of
        GetManagedClusterAddOn n ns \<Rightarrow>
          (case find (\<lambda>m. mca_Name m = n \<and> mca_Namespace m = ns) w of
             None \<Rightarrow> (Err NotFound, w)
           | Some m \<Rightarrow> (Ok (AddOnVal m), w))
      | StatusUpdate m \<Rightarrow>
          (Ok NoVal,
           m # filter (\<lambda>x. \<not> (mca_Name x = mca_Name m \<and> mca_Namespace x = mca_Namespace m)) w)
      | _ \<Rightarrow> (Ok NoVal, w))"

text \<open>The same store, refusing every status update.\<close>

definition readOnlyClient :: "ManagedClusterAddOn list exec" where
  "readOnlyClient c w =
     (case c of
        StatusUpdate m \<Rightarrow> (Err (Failure ''forbidden''), w)
      | _ \<Rightarrow> storeClient c w)"

text \<open>
  A store of secrets with a working crypto library: serial numbers, keys and certificates
  are fixed values.
\<close>

definition secretStore :: "Secret list exec" where
  "secretStore c w =
     (case c of
        GetSecret ns n \<Rightarrow>
          (case find (\<lambda>s. sec_Name s = n \<and> sec_Namespace s = ns) w of
             None \<Rightarrow> (Err NotFound, w)
           | Some s \<Rightarrow> (Ok (SecretVal s), w))
      | RandInt \<Rightarrow> (Ok (IntVal 42), w)
      | TimeNow \<Rightarrow> (Ok (TimeVal (Instant 1000)), w)
      | GenerateKey bits \<Rightarrow> (Ok (KeyVal (RSAKey 7)), w)
      | X509CreateCertificate template parent pub priv \<Rightarrow> (Ok (BytesVal ''der''), w)
      | _ \<Rightarrow> (Ok NoVal, w))"

definition state0 :: "'w \<Rightarrow> 'w state" where
  "state0 w = \<lparr>world = w, trace = [], isCRoleCreated = False,
               isClusterManagementAddonCreated = False\<rparr>"

definition created :: "'w \<Rightarrow> 'w state" where
  "created w = \<lparr>world = w, trace = [], isCRoleCreated = True,
                isClusterManagementAddonCreated = True\<rparr>"

definition testCACert :: Certificate where
  "testCACert =
     \<lparr>SerialNumber = 1,
      Subject = \<lparr>Organization = [''Red Hat, Inc.''], Country = [''US''],
                 OrganizationalUnit = [], CommonName = ''observability-server-ca-certificate''\<rparr>,
      NotBefore = Instant 0, NotAfter = AddDate (Instant 0) 5 0 0, IsCA = True,
      KeyUsage = [KeyUsageDigitalSignature, KeyUsageKeyEncipherment, KeyUsageCertSign],
      ExtKeyUsage = [], BasicConstraintsValid = True, DNSNames = [], IPAddresses = []\<rparr>"

text \<open>
  Values for the parameters. The PEM decoder of this environment finds a block only in
  input that starts with a BEGIN line, and the key parser accepts one key.
\<close>

definition testDeps :: deps where
  "testDeps =
     \<lparr>util_Remove = (\<lambda>list s. filter (\<lambda>v. v \<noteq> s) list),
      util_Contains = (\<lambda>list s. List.member list s),
      workNameSuffix = ''-observability'',
      watchNamespace = ''open-cluster-management-observability'',
      ManagedClusterAddonName = ''observability-controller'',
      defaultNamespace = ''open-cluster-management-observability'',
      serverCACerts = ''observability-server-ca-certs'',
      clientCACerts = ''observability-client-ca-certs'',
      pem_Decode = (\<lambda>b. if take 11 b = ''-----BEGIN '' then Some (drop 11 b) else None),
      pem_Encode = (\<lambda>t b. ''-----BEGIN '' @ b),
      x509_ParsePKCS1PrivateKey =
        (\<lambda>b. if b = ''key'' then Inr (RSAKey 1) else Inl (Failure ''x509: bad key'')),
      x509_ParseCertificate =
        (\<lambda>b. if b = ''cert'' then Inr testCACert else Inl (Failure ''x509: bad certificate'')),
      x509_MarshalPKCS1PrivateKey = (\<lambda>k. ''key'')\<rparr>"

definition cond1 :: StatusCondition where
  "cond1 = \<lparr>sc_Type = ''Deployed'', sc_Status = ''True'', sc_LastTransitionTime = Instant 7,
            sc_Reason = ''Deployed'', sc_Message = ''ok''\<rparr>"

definition cond2 :: StatusCondition where
  "cond2 = \<lparr>sc_Type = ''Unknown'', sc_Status = ''False'', sc_LastTransitionTime = Instant 9,
            sc_Reason = ''Lost'', sc_Message = ''no heartbeat''\<rparr>"

definition addon1 :: ObservabilityAddon where
  "addon1 = \<lparr>oa_Namespace = ''cluster1'', oa_Conditions = [cond1]\<rparr>"

definition addon2 :: ObservabilityAddon where
  "addon2 = \<lparr>oa_Namespace = ''cluster2'', oa_Conditions = []\<rparr>"

definition addon3 :: ObservabilityAddon where
  "addon3 = \<lparr>oa_Namespace = ''cluster3'', oa_Conditions = [cond1, cond2]\<rparr>"

definition stored1 :: ManagedClusterAddOn where
  "stored1 = \<lparr>mca_Name = ''observability-controller'', mca_Namespace = ''cluster1'',
              mca_Conditions = [convertCondition cond1]\<rparr>"

definition stored3 :: ManagedClusterAddOn where
  "stored3 = \<lparr>mca_Name = ''observability-controller'', mca_Namespace = ''cluster3'',
              mca_Conditions = []\<rparr>"

definition decision1 :: PlacementDecision where
  "decision1 = \<lparr>ClusterName = ''cluster1'', ClusterNamespace = ''cluster1''\<rparr>"

definition decision2 :: PlacementDecision where
  "decision2 = \<lparr>ClusterName = ''cluster2'', ClusterNamespace = ''cluster2''\<rparr>"

definition testMCO :: MultiClusterObservability where
  "testMCO = \<lparr>mco_Name = ''observability'', mco_Namespace = [],
              mco_ImagePullSecret = ''test-pull-secret''\<rparr>"

definition testRequest :: Request where
  "testRequest = \<lparr>req_Namespace = ''open-cluster-management-observability'',
                  req_Name = ''observability''\<rparr>"

definition testPullSecret :: Secret where
  "testPullSecret = \<lparr>sec_Name = ''test-pull-secret'',
                     sec_Namespace = ''open-cluster-management-observability'',
                     sec_Data = [(''.dockerconfigjson'', ''test-docker-config'')]\<rparr>"



text \<open>A stored certificate secret whose key is not PEM, as \<open>newCertSecret\<close> of the tests.\<close>

definition brokenKeySecret :: Secret where
  "brokenKeySecret = \<lparr>sec_Name = ''observability-server-ca-certs'',
                      sec_Namespace = ''open-cluster-management-observability'',
                      sec_Data = [(''tls.crt'', ''test-tls-crt''), (''tls.key'', ''test-tls-key'')]\<rparr>"

text \<open>A well-formed authority secret and a leaf secret whose key is not PEM.\<close>

definition goodCASecret :: Secret where
  "goodCASecret = \<lparr>sec_Name = ''observability-server-ca-certs'',
                   sec_Namespace = ''open-cluster-management-observability'',
                   sec_Data = [(''ca.crt'', ''-----BEGIN cert''), (''tls.crt'', ''-----BEGIN cert''),
                               (''tls.key'', ''-----BEGIN key'')]\<rparr>"

definition brokenLeafSecret :: Secret where
  "brokenLeafSecret = \<lparr>sec_Name = ''observability-server-certs'',
                       sec_Namespace = ''open-cluster-management-observability'',
                       sec_Data = [(''ca.crt'', ''-----BEGIN cert''), (''tls.crt'', ''test-tls-crt''),
                                   (''tls.key'', ''test-tls-key'')]\<rparr>"

section \<open>Derived notions used in the properties\<close>

text \<open>The calls \<open>createManagedClusterRes\<close> can issue for one placement decision.\<close>

definition memberCalls ::
  "MultiClusterObservability \<Rightarrow> Secret option \<Rightarrow> PlacementDecision \<Rightarrow> call list" where
  "memberCalls mco imagePullSecret d =
     [CreateObsAddon (ClusterNamespace d),
      CreateRolebindings (ClusterNamespace d) (ClusterName d),
      CreateManifestWorks (ClusterNamespace d) (ClusterName d) mco imagePullSecret,
      CreateManagedClusterAddonCR (ClusterNamespace d)]"

text \<open>Some call of a trace was answered with an error.\<close>

definition failed :: "(call \<times> reply) list \<Rightarrow> bool" where
  "failed tr = list_ex (\<lambda>(c, r). case r of Err e \<Rightarrow> True | Ok v \<Rightarrow> False) tr"

section \<open>status.go: properties\<close>

lemma convertConditions_map: "convertConditions acc cs = acc @ map convertCondition cs"
  by (induction cs arbitrary: acc) simp_all

lemma statusMap_dom:
  "dom (map_of statusMap) =
     {''Available'', ''Progressing'', ''Deployed'', ''Disabled'', ''Degraded'', ''NotSupported''}"
  by (auto simp: statusMap_def dom_def split: if_splits)

lemma statusMap_index_unknown:
  "k \<notin> {''Available'', ''Progressing'', ''Deployed'', ''Disabled'', ''Degraded'', ''NotSupported''}
   \<Longrightarrow> statusMap_index k = []"
  by (simp add: statusMap_index_def statusMap_def)

lemma updateAddonStatus_append:
  "updateAddonStatus ex n (pre @ xs) st =
     (case updateAddonStatus ex n pre st of
        (Some err, st') \<Rightarrow> (Some err, st')
      | (None, st') \<Rightarrow> updateAddonStatus ex n xs st')"
  by (induction pre arbitrary: st) (auto split: prod.splits option.splits)

lemma invoke_trace: "invoke ex c st = (r, st') \<Longrightarrow> trace st' = trace st @ [(c, r)]"
  by (auto simp: invoke_def split: prod.splits)

text \<open>
  C2. The translation of condition types is exactly the fixed table: the table has the six
  keys Available, Progressing, Deployed, Disabled, Degraded and NotSupported and no other,
  and the condition built from an add-on condition of one of these types has the type
  Available, Progressing, Progressing, Degraded, Degraded and Degraded, in that order.
\<close>

theorem statusMap_translation_table:
  "dom (map_of statusMap) =
     {''Available'', ''Progressing'', ''Deployed'', ''Disabled'', ''Degraded'', ''NotSupported''}
   \<and> Type (convertCondition (c\<lparr>sc_Type := ''Available''\<rparr>)) = ''Available''
   \<and> Type (convertCondition (c\<lparr>sc_Type := ''Progressing''\<rparr>)) = ''Progressing''
   \<and> Type (convertCondition (c\<lparr>sc_Type := ''Deployed''\<rparr>)) = ''Progressing''
   \<and> Type (convertCondition (c\<lparr>sc_Type := ''Disabled''\<rparr>)) = ''Degraded''
   \<and> Type (convertCondition (c\<lparr>sc_Type := ''Degraded''\<rparr>)) = ''Degraded''
   \<and> Type (convertCondition (c\<lparr>sc_Type := ''NotSupported''\<rparr>)) = ''Degraded''"
  by (simp add: statusMap_dom) (simp add: convertCondition_def statusMap_index_def statusMap_def)

text \<open>
  C6. In the status aggregation, when the members before \<open>addon\<close> have been passed
  without error and the read of the member's health object is answered with not-found,
  the aggregation goes on with the members after it; when the read is answered with any
  other error, or the status update is, the aggregation returns that error at once, in
  the state the failing call left.
\<close>

theorem updateAddonStatus_error_policy:
  assumes pre: "updateAddonStatus ex n pre st = (None, st1)"
    and conds: "oa_Conditions addon \<noteq> []"
    and get: "invoke ex (GetManagedClusterAddOn n (oa_Namespace addon)) st1 = (r, st2)"
  shows "(\<forall>e. r = Err e \<and> IsNotFound e \<longrightarrow>
            updateAddonStatus ex n (pre @ addon # rest) st = updateAddonStatus ex n rest st2)
       \<and> (\<forall>e. r = Err e \<and> \<not> IsNotFound e \<longrightarrow>
            updateAddonStatus ex n (pre @ addon # rest) st = (Some e, st2))
       \<and> (\<forall>v e st3. r = Ok v
            \<and> convertConditions [] (oa_Conditions addon) \<noteq> mca_Conditions (addon_of v)
            \<and> invoke ex (StatusUpdate ((addon_of v)\<lparr>mca_Conditions :=
                           convertConditions [] (oa_Conditions addon)\<rparr>)) st2 = (Err e, st3) \<longrightarrow>
            updateAddonStatus ex n (pre @ addon # rest) st = (Some e, st3))"
  using pre conds get
  by (simp add: updateAddonStatus_append updateAddonStatus_body_def)

theorem updateAddonStatus_error_policy_witness:
  "updateAddonStatus (brokenClient NotFound) ''addon'' [addon2, addon1, addon2] (state0 ())
     = (None, (state0 ())\<lparr>trace := [(GetManagedClusterAddOn ''addon'' ''cluster1'', Err NotFound)]\<rparr>)
   \<and> updateAddonStatus (brokenClient (Failure ''timeout'')) ''addon'' [addon2, addon1, addon1] (state0 ())
     = (Some (Failure ''timeout''),
        (state0 ())\<lparr>trace := [(GetManagedClusterAddOn ''addon'' ''cluster1'', Err (Failure ''timeout''))]\<rparr>)
   \<and> fst (updateAddonStatus readOnlyClient ''observability-controller'' [addon2, addon3, addon1]
            (state0 [stored3])) = Some (Failure ''forbidden'')
   \<and> map fst (trace (snd (updateAddonStatus readOnlyClient ''observability-controller''
            [addon2, addon3, addon1] (state0 [stored3]))))
       = [GetManagedClusterAddOn ''observability-controller'' ''cluster3'',
          StatusUpdate (stored3\<lparr>mca_Conditions := [convertCondition cond1, convertCondition cond2]\<rparr>)]"
proof -
  let ?g = "GetManagedClusterAddOn ''addon'' ''cluster1''"
  have p1: "updateAddonStatus (brokenClient NotFound) ''addon'' [addon2] (state0 ()) = (None, state0 ())"
    by (simp add: updateAddonStatus_body_def addon2_def)
  have c: "oa_Conditions addon1 \<noteq> []" by (simp add: addon1_def)
  have g1: "invoke (brokenClient NotFound) (GetManagedClusterAddOn ''addon'' (oa_Namespace addon1)) (state0 ())
              = (Err NotFound, (state0 ())\<lparr>trace := [(?g, Err NotFound)]\<rparr>)"
    by (simp add: invoke_def brokenClient_def addon1_def state0_def)
  have a: "updateAddonStatus (brokenClient NotFound) ''addon'' ([addon2] @ addon1 # [addon2]) (state0 ())
             = updateAddonStatus (brokenClient NotFound) ''addon'' [addon2]
                 ((state0 ())\<lparr>trace := [(?g, Err NotFound)]\<rparr>)"
    using updateAddonStatus_error_policy [OF p1 c g1, of "[addon2]"] by (simp add: IsNotFound_def)
  have p2: "updateAddonStatus (brokenClient (Failure ''timeout'')) ''addon'' [addon2] (state0 ())
              = (None, state0 ())"
    by (simp add: updateAddonStatus_body_def addon2_def)
  have g2: "invoke (brokenClient (Failure ''timeout'')) (GetManagedClusterAddOn ''addon'' (oa_Namespace addon1)) (state0 ())
              = (Err (Failure ''timeout''), (state0 ())\<lparr>trace := [(?g, Err (Failure ''timeout''))]\<rparr>)"
    by (simp add: invoke_def brokenClient_def addon1_def state0_def)
  have b: "updateAddonStatus (brokenClient (Failure ''timeout'')) ''addon'' ([addon2] @ addon1 # [addon1]) (state0 ())
             = (Some (Failure ''timeout''), (state0 ())\<lparr>trace := [(?g, Err (Failure ''timeout''))]\<rparr>)"
    using updateAddonStatus_error_policy [OF p2 c g2, of "[addon1]"] by (simp add: IsNotFound_def)
  let ?n = "''observability-controller''"
  let ?g3 = "GetManagedClusterAddOn ?n ''cluster3''"
  let ?u3 = "StatusUpdate (stored3\<lparr>mca_Conditions := [convertCondition cond1, convertCondition cond2]\<rparr>)"
  let ?s2 = "(state0 [stored3])\<lparr>trace := [(?g3, Ok (AddOnVal stored3))]\<rparr>"
  let ?s3 = "(state0 [stored3])\<lparr>trace := [(?g3, Ok (AddOnVal stored3)), (?u3, Err (Failure ''forbidden''))]\<rparr>"
  have p3: "updateAddonStatus readOnlyClient ?n [addon2] (state0 [stored3]) = (None, state0 [stored3])"
    by (simp add: updateAddonStatus_body_def addon2_def)
  have c3: "oa_Conditions addon3 \<noteq> []" by (simp add: addon3_def)
  have g3: "invoke readOnlyClient (GetManagedClusterAddOn ?n (oa_Namespace addon3)) (state0 [stored3])
              = (Ok (AddOnVal stored3), ?s2)"
    by (simp add: invoke_def readOnlyClient_def storeClient_def addon3_def state0_def stored3_def)
  have u3: "invoke readOnlyClient
              (StatusUpdate ((addon_of (AddOnVal stored3))\<lparr>mca_Conditions :=
                 convertConditions [] (oa_Conditions addon3)\<rparr>)) ?s2 = (Err (Failure ''forbidden''), ?s3)"
    by (simp add: invoke_def readOnlyClient_def addon3_def state0_def)
  have d3: "convertConditions [] (oa_Conditions addon3) \<noteq> mca_Conditions (addon_of (AddOnVal stored3))"
    by (simp add: addon3_def stored3_def)
  have e: "updateAddonStatus readOnlyClient ?n ([addon2] @ addon3 # [addon1]) (state0 [stored3])
             = (Some (Failure ''forbidden''), ?s3)"
    using updateAddonStatus_error_policy [OF p3 c3 g3, of "[addon1]"] u3 d3 by blast
  from a b e show ?thesis
    by (simp add: updateAddonStatus_body_def addon2_def)
qed

text \<open>
  C7. For a member without conditions the aggregation issues no call and leaves the state
  as it is; for a member whose computed conditions equal the stored ones it issues the
  read and nothing else; and a status update is issued only after a successful read whose
  conditions differ from the computed ones, carrying the object read with the computed
  conditions.
\<close>

theorem updateAddonStatus_skips_and_writes:
  "(oa_Conditions addon = [] \<longrightarrow>
      updateAddonStatus_body ex n addon st = (None, st)
      \<and> updateAddonStatus ex n (addon # rest) st = updateAddonStatus ex n rest st)
   \<and> (\<forall>v st1. oa_Conditions addon \<noteq> []
        \<and> invoke ex (GetManagedClusterAddOn n (oa_Namespace addon)) st = (Ok v, st1)
        \<and> convertConditions [] (oa_Conditions addon) = mca_Conditions (addon_of v) \<longrightarrow>
        updateAddonStatus_body ex n addon st = (None, st1))
   \<and> (\<forall>m r. (StatusUpdate m, r) \<in> set (issued st (snd (updateAddonStatus_body ex n addon st))) \<longrightarrow>
        (\<exists>v st1. invoke ex (GetManagedClusterAddOn n (oa_Namespace addon)) st = (Ok v, st1)
           \<and> convertConditions [] (oa_Conditions addon) \<noteq> mca_Conditions (addon_of v)
           \<and> m = (addon_of v)\<lparr>mca_Conditions := convertConditions [] (oa_Conditions addon)\<rparr>))"
proof (intro conjI allI impI)
  assume "oa_Conditions addon = []"
  then show "updateAddonStatus_body ex n addon st = (None, st)"
    by (simp add: updateAddonStatus_body_def)
next
  assume "oa_Conditions addon = []"
  then show "updateAddonStatus ex n (addon # rest) st = updateAddonStatus ex n rest st"
    by (simp add: updateAddonStatus_body_def)
next
  fix v st1
  assume "oa_Conditions addon \<noteq> []
        \<and> invoke ex (GetManagedClusterAddOn n (oa_Namespace addon)) st = (Ok v, st1)
        \<and> convertConditions [] (oa_Conditions addon) = mca_Conditions (addon_of v)"
  then show "updateAddonStatus_body ex n addon st = (None, st1)"
    by (simp add: updateAddonStatus_body_def)
next
  fix m r
  assume a: "(StatusUpdate m, r) \<in> set (issued st (snd (updateAddonStatus_body ex n addon st)))"
  show "\<exists>v st1. invoke ex (GetManagedClusterAddOn n (oa_Namespace addon)) st = (Ok v, st1)
           \<and> convertConditions [] (oa_Conditions addon) \<noteq> mca_Conditions (addon_of v)
           \<and> m = (addon_of v)\<lparr>mca_Conditions := convertConditions [] (oa_Conditions addon)\<rparr>"
    using a
    by (auto simp: updateAddonStatus_body_def issued_def Let_def dest!: invoke_trace
             split: if_splits prod.splits reply.splits error.splits)
qed

theorem updateAddonStatus_skips_and_writes_witness:
  "updateAddonStatus_body storeClient ''observability-controller'' addon2 (state0 [stored1])
     = (None, state0 [stored1])
   \<and> updateAddonStatus_body storeClient ''observability-controller'' addon1 (state0 [stored1])
     = (None, (state0 [stored1])\<lparr>trace :=
          [(GetManagedClusterAddOn ''observability-controller'' ''cluster1'', Ok (AddOnVal stored1))]\<rparr>)
   \<and> issued (state0 [stored3])
        (snd (updateAddonStatus_body storeClient ''observability-controller'' addon3 (state0 [stored3])))
     = [(GetManagedClusterAddOn ''observability-controller'' ''cluster3'', Ok (AddOnVal stored3)),
        (StatusUpdate (stored3\<lparr>mca_Conditions := [convertCondition cond1, convertCondition cond2]\<rparr>),
         Ok NoVal)]
   \<and> [convertCondition cond1, convertCondition cond2] \<noteq> mca_Conditions stored3"
proof -
  let ?n = "''observability-controller''"
  note T = updateAddonStatus_skips_and_writes
  have e: "oa_Conditions addon2 = []" by (simp add: addon2_def)
  have a: "updateAddonStatus_body storeClient ?n addon2 (state0 [stored1]) = (None, state0 [stored1])"
    using T [of addon2 storeClient ?n "state0 [stored1]" "[]"] e by blast
  let ?s1 = "(state0 [stored1])\<lparr>trace := [(GetManagedClusterAddOn ?n ''cluster1'', Ok (AddOnVal stored1))]\<rparr>"
  have g1: "invoke storeClient (GetManagedClusterAddOn ?n (oa_Namespace addon1)) (state0 [stored1])
              = (Ok (AddOnVal stored1), ?s1)"
    by (simp add: invoke_def storeClient_def addon1_def state0_def stored1_def)
  have q1: "oa_Conditions addon1 \<noteq> []
            \<and> convertConditions [] (oa_Conditions addon1) = mca_Conditions (addon_of (AddOnVal stored1))"
    by (simp add: addon1_def stored1_def)
  have b: "updateAddonStatus_body storeClient ?n addon1 (state0 [stored1]) = (None, ?s1)"
    using T [of addon1 storeClient ?n "state0 [stored1]" "[]"] g1 q1 by blast
  let ?u = "StatusUpdate (stored3\<lparr>mca_Conditions := [convertCondition cond1, convertCondition cond2]\<rparr>)"
  have run: "issued (state0 [stored3]) (snd (updateAddonStatus_body storeClient ?n addon3 (state0 [stored3])))
     = [(GetManagedClusterAddOn ?n ''cluster3'', Ok (AddOnVal stored3)), (?u, Ok NoVal)]"
    by (simp add: updateAddonStatus_body_def invoke_def storeClient_def addon3_def state0_def
          stored3_def issued_def Let_def)
  have g3: "invoke storeClient (GetManagedClusterAddOn ?n (oa_Namespace addon3)) (state0 [stored3])
              = (Ok (AddOnVal stored3),
                 (state0 [stored3])\<lparr>trace := [(GetManagedClusterAddOn ?n ''cluster3'', Ok (AddOnVal stored3))]\<rparr>)"
    by (simp add: invoke_def storeClient_def addon3_def state0_def stored3_def)
  have "(?u, Ok NoVal) \<in> set (issued (state0 [stored3])
          (snd (updateAddonStatus_body storeClient ?n addon3 (state0 [stored3]))))"
    by (simp add: run)
  with T [of addon3 storeClient ?n "state0 [stored3]" "[]"] g3
  have "convertConditions [] (oa_Conditions addon3) \<noteq> mca_Conditions (addon_of (AddOnVal stored3))"
    by auto
  then have d: "[convertCondition cond1, convertCondition cond2] \<noteq> mca_Conditions stored3"
    by (simp add: addon3_def)
  from a b run d show ?thesis by blast
qed

text \<open>
  C10. An add-on condition whose type is none of the six keys of the table is neither
  skipped nor an error: the condition built from it has the empty string as its type and
  the status, reason, message and transition time of the input, it stands in the computed
  list at the position of the input, and the list is written as any other is.
\<close>

theorem convertCondition_unknown_type:
  assumes unknown: "sc_Type c \<notin>
      {''Available'', ''Progressing'', ''Deployed'', ''Disabled'', ''Degraded'', ''NotSupported''}"
    and conds: "oa_Conditions addon = before @ c # after"
  shows "convertCondition c =
           \<lparr>Type = [], Status = sc_Status c, ObservedGeneration = 0,
            LastTransitionTime = sc_LastTransitionTime c,
            Reason = sc_Reason c, Message = sc_Message c\<rparr>
       \<and> length (convertConditions [] (oa_Conditions addon)) = length (oa_Conditions addon)
       \<and> convertConditions [] (oa_Conditions addon) ! length before = convertCondition c
       \<and> (\<forall>v st1 r st2.
            invoke ex (GetManagedClusterAddOn n (oa_Namespace addon)) st = (Ok v, st1)
            \<and> convertConditions [] (oa_Conditions addon) \<noteq> mca_Conditions (addon_of v)
            \<and> invoke ex (StatusUpdate ((addon_of v)\<lparr>mca_Conditions :=
                  convertConditions [] (oa_Conditions addon)\<rparr>)) st1 = (r, st2) \<longrightarrow>
            updateAddonStatus_body ex n addon st
              = (case r of Err e \<Rightarrow> Some e | Ok u \<Rightarrow> None, st2))"
proof (intro conjI allI impI)
  show "convertCondition c =
           \<lparr>Type = [], Status = sc_Status c, ObservedGeneration = 0,
            LastTransitionTime = sc_LastTransitionTime c,
            Reason = sc_Reason c, Message = sc_Message c\<rparr>"
    using unknown by (simp add: convertCondition_def statusMap_index_unknown)
  show "length (convertConditions [] (oa_Conditions addon)) = length (oa_Conditions addon)"
    by (simp add: convertConditions_map)
  show "convertConditions [] (oa_Conditions addon) ! length before = convertCondition c"
    by (simp add: convertConditions_map conds nth_append)
next
  fix v st1 r st2
  assume "invoke ex (GetManagedClusterAddOn n (oa_Namespace addon)) st = (Ok v, st1)
            \<and> convertConditions [] (oa_Conditions addon) \<noteq> mca_Conditions (addon_of v)
            \<and> invoke ex (StatusUpdate ((addon_of v)\<lparr>mca_Conditions :=
                  convertConditions [] (oa_Conditions addon)\<rparr>)) st1 = (r, st2)"
  then show "updateAddonStatus_body ex n addon st
              = (case r of Err e \<Rightarrow> Some e | Ok u \<Rightarrow> None, st2)"
    using conds by (simp add: updateAddonStatus_body_def split: reply.splits)
qed

theorem convertCondition_unknown_type_witness:
  "convertCondition cond2 =
     \<lparr>Type = [], Status = ''False'', ObservedGeneration = 0, LastTransitionTime = Instant 9,
      Reason = ''Lost'', Message = ''no heartbeat''\<rparr>
   \<and> convertConditions [] (oa_Conditions addon3) ! 1 = convertCondition cond2
   \<and> updateAddonStatus_body storeClient ''observability-controller'' addon3 (state0 [stored3])
     = (None,
        \<lparr>world = [stored3\<lparr>mca_Conditions := [convertCondition cond1, convertCondition cond2]\<rparr>],
         trace = [(GetManagedClusterAddOn ''observability-controller'' ''cluster3'', Ok (AddOnVal stored3)),
                  (StatusUpdate (stored3\<lparr>mca_Conditions := [convertCondition cond1, convertCondition cond2]\<rparr>),
                   Ok NoVal)],
         isCRoleCreated = False, isClusterManagementAddonCreated = False\<rparr>)"
proof -
  let ?n = "''observability-controller''"
  let ?g = "GetManagedClusterAddOn ?n ''cluster3''"
  let ?u = "StatusUpdate (stored3\<lparr>mca_Conditions := [convertCondition cond1, convertCondition cond2]\<rparr>)"
  let ?s1 = "(state0 [stored3])\<lparr>trace := [(?g, Ok (AddOnVal stored3))]\<rparr>"
  let ?s2 = "\<lparr>world = [stored3\<lparr>mca_Conditions := [convertCondition cond1, convertCondition cond2]\<rparr>],
         trace = [(?g, Ok (AddOnVal stored3)), (?u, Ok NoVal)],
         isCRoleCreated = False, isClusterManagementAddonCreated = False\<rparr>"
  have u: "sc_Type cond2 \<notin>
      {''Available'', ''Progressing'', ''Deployed'', ''Disabled'', ''Degraded'', ''NotSupported''}"
    by (simp add: cond2_def)
  have cs: "oa_Conditions addon3 = [cond1] @ cond2 # []" by (simp add: addon3_def)
  note T = convertCondition_unknown_type [OF u cs, of storeClient ?n "state0 [stored3]"]
  have g: "invoke storeClient (GetManagedClusterAddOn ?n (oa_Namespace addon3)) (state0 [stored3])
              = (Ok (AddOnVal stored3), ?s1)"
    by (simp add: invoke_def storeClient_def addon3_def state0_def stored3_def)
  have d: "convertConditions [] (oa_Conditions addon3) \<noteq> mca_Conditions (addon_of (AddOnVal stored3))"
    by (simp add: addon3_def stored3_def)
  have w: "invoke storeClient (StatusUpdate ((addon_of (AddOnVal stored3))\<lparr>mca_Conditions :=
                  convertConditions [] (oa_Conditions addon3)\<rparr>)) ?s1 = (Ok NoVal, ?s2)"
    by (simp add: invoke_def storeClient_def addon3_def state0_def stored3_def)
  have a: "convertCondition cond2 =
     \<lparr>Type = [], Status = ''False'', ObservedGeneration = 0, LastTransitionTime = Instant 9,
      Reason = ''Lost'', Message = ''no heartbeat''\<rparr>"
    using T by (simp add: cond2_def)
  have b: "convertConditions [] (oa_Conditions addon3) ! 1 = convertCondition cond2"
    using T by simp
  have c: "updateAddonStatus_body storeClient ?n addon3 (state0 [stored3]) = (None, ?s2)"
    using T [THEN conjunct2, THEN conjunct2, THEN conjunct2, rule_format,
             of "AddOnVal stored3" ?s1 "Ok NoVal" ?s2] g d w
    by simp
  from a b c show ?thesis by blast
qed



section \<open>placementrule_controller.go: properties\<close>

lemma failed_append [simp]: "failed (xs @ ys) = (failed xs \<or> failed ys)"
  by (simp add: failed_def)

lemma failed_simps [simp]:
  "failed [] = False"
  "failed ((c, Err e) # tr) = True"
  "failed ((c, Ok v) # tr) = failed tr"
  by (simp_all add: failed_def)


lemma invoke_flags:
  "invoke ex c st = (r, st') \<Longrightarrow>
     isCRoleCreated st' = isCRoleCreated st
     \<and> isClusterManagementAddonCreated st' = isClusterManagementAddonCreated st"
  by (auto simp: invoke_def split: prod.splits)

lemma createManagedClusterRes_issued:
  assumes "createManagedClusterRes ex mco ips (ClusterName d) (ClusterNamespace d) st = (err, st')"
  shows "\<exists>new. trace st' = trace st @ new
           \<and> (\<exists>r. (CreateObsAddon (ClusterNamespace d), r) \<in> set new)
           \<and> (err \<noteq> None) = failed new
           \<and> fst ` set new \<subseteq> set (memberCalls mco ips d)"
  using assms
  by (auto simp: createManagedClusterRes_def invoke_def memberCalls_def
           split: prod.splits reply.splits)

lemma decisionsLoop_issued:
  assumes "decisionsLoop ex D mco ips ds cur f st = ((cur', f'), st')"
  shows "\<exists>new. trace st' = trace st @ new
           \<and> (\<forall>d \<in> set ds. \<exists>r. (CreateObsAddon (ClusterNamespace d), r) \<in> set new)
           \<and> f' = (f \<or> failed new)
           \<and> (\<forall>c \<in> fst ` set new. \<exists>d \<in> set ds. c \<in> set (memberCalls mco ips d))
           \<and> cur' = foldl (util_Remove D) cur (map ClusterNamespace ds)"
  using assms
proof (induction ds arbitrary: cur f st)
  case Nil
  then show ?case by simp
next
  case (Cons d ds)
  obtain err st1 where step:
    "createManagedClusterRes ex mco ips (ClusterName d) (ClusterNamespace d) st = (err, st1)"
    by (cases "createManagedClusterRes ex mco ips (ClusterName d) (ClusterNamespace d) st")
  from createManagedClusterRes_issued [OF step] obtain new1 where n1:
    "trace st1 = trace st @ new1"
    "\<exists>r. (CreateObsAddon (ClusterNamespace d), r) \<in> set new1"
    "(err \<noteq> None) = failed new1"
    "fst ` set new1 \<subseteq> set (memberCalls mco ips d)"
    by blast
  from Cons.prems step have rest:
    "decisionsLoop ex D mco ips ds (util_Remove D cur (ClusterNamespace d))
       (if err \<noteq> None then True else f) st1 = ((cur', f'), st')"
    by simp
  from Cons.IH [OF rest] obtain new2 where n2:
    "trace st' = trace st1 @ new2"
    "\<forall>d \<in> set ds. \<exists>r. (CreateObsAddon (ClusterNamespace d), r) \<in> set new2"
    "f' = ((if err \<noteq> None then True else f) \<or> failed new2)"
    "\<forall>c \<in> fst ` set new2. \<exists>d \<in> set ds. c \<in> set (memberCalls mco ips d)"
    "cur' = foldl (util_Remove D) (util_Remove D cur (ClusterNamespace d)) (map ClusterNamespace ds)"
    by blast
  show ?case
  proof (intro exI [of _ "new1 @ new2"] conjI)
    show "trace st' = trace st @ new1 @ new2" using n1(1) n2(1) by simp
    show "\<forall>d\<in>set (d # ds). \<exists>r. (CreateObsAddon (ClusterNamespace d), r) \<in> set (new1 @ new2)"
      using n1(2) n2(2) by auto
    show "f' = (f \<or> failed (new1 @ new2))" using n1(3) n2(3) by auto
    show "\<forall>c\<in>fst ` set (new1 @ new2). \<exists>d\<in>set (d # ds). c \<in> set (memberCalls mco ips d)"
      using n1(4) n2(4) by (auto simp: image_Un)
    show "cur' = foldl (util_Remove D) cur (map ClusterNamespace (d # ds))"
      using n2(5) by simp
  qed
qed

lemma deleteObaLoop_issued:
  assumes "deleteObaLoop ex cs f st = (f', st')"
  shows "\<exists>new. trace st' = trace st @ new
           \<and> map fst new = map DeleteObsAddon cs
           \<and> f' = (f \<or> failed new)"
  using assms
proof (induction cs arbitrary: f st)
  case Nil
  then show ?case by simp
next
  case (Cons c cs)
  obtain r st1 where step: "invoke ex (DeleteObsAddon c) st = (r, st1)"
    by (cases "invoke ex (DeleteObsAddon c) st")
  then have t1: "trace st1 = trace st @ [(DeleteObsAddon c, r)]"
    by (rule invoke_trace)
  from Cons.prems step have rest:
    "deleteObaLoop ex cs (case r of Err e \<Rightarrow> True | Ok v \<Rightarrow> f) st1 = (f', st')"
    by (simp split: reply.splits)
  from Cons.IH [OF rest] obtain new2 where n2:
    "trace st' = trace st1 @ new2" "map fst new2 = map DeleteObsAddon cs"
    "f' = ((case r of Err e \<Rightarrow> True | Ok v \<Rightarrow> f) \<or> failed new2)"
    by blast
  show ?case
    by (rule exI [of _ "(DeleteObsAddon c, r) # new2"])
       (use t1 n2 in \<open>auto split: reply.splits\<close>)
qed

text \<open>
  C4. In the part of \<open>createAllRelatedRes\<close> that walks the placement decisions, a failure
  for one member stops nothing: whatever the environment answers, the creation of the
  resources of every decision is attempted and the deletion of the add-on record of every
  cluster left in \<open>currentClusters\<close> is attempted; the step returns an error exactly
  when one of the calls it issued was answered with an error, and that error is the fixed
  message; and the step issues no other call than these creations and deletions, so
  nothing that was applied is undone.
\<close>

theorem createAllRelatedRes_members_continue_on_error:
  assumes run: "createAllRelatedRes_members ex D mco ips decisions obsAddonList st = (err, st')"
  shows "trace st' = trace st @ issued st st'
   \<and> (\<forall>d \<in> set decisions. \<exists>r. (CreateObsAddon (ClusterNamespace d), r) \<in> set (issued st st'))
   \<and> (\<forall>c \<in> set (foldl (util_Remove D) (map oa_Namespace obsAddonList)
                    (map ClusterNamespace decisions)).
         \<exists>r. (DeleteObsAddon c, r) \<in> set (issued st st'))
   \<and> (err \<noteq> None) = failed (issued st st')
   \<and> (err = None \<or> err = Some (Failure failedMessage))
   \<and> (\<forall>c \<in> fst ` set (issued st st').
         (\<exists>d \<in> set decisions.
            c \<in> set (memberCalls (mco\<lparr>mco_Namespace := watchNamespace D\<rparr>) ips d))
         \<or> (\<exists>m \<in> set (foldl (util_Remove D) (map oa_Namespace obsAddonList)
                          (map ClusterNamespace decisions)). c = DeleteObsAddon m))"
proof -
  let ?mco = "mco\<lparr>mco_Namespace := watchNamespace D\<rparr>"
  let ?removed = "foldl (util_Remove D) (map oa_Namespace obsAddonList) (map ClusterNamespace decisions)"
  obtain cur f1 st1 where l1:
    "decisionsLoop ex D ?mco ips decisions (map oa_Namespace obsAddonList) False st = ((cur, f1), st1)"
    by (metis surj_pair)
  obtain f2 st2 where l2: "deleteObaLoop ex cur False st1 = (f2, st2)"
    by (metis surj_pair)
  from run l1 l2 have res: "st' = st2" "err = (if f1 \<or> f2 then Some (Failure failedMessage) else None)"
    by (auto simp: createAllRelatedRes_members_def split: if_splits)
  from decisionsLoop_issued [OF l1] obtain new1 where n1:
    "trace st1 = trace st @ new1"
    "\<forall>d \<in> set decisions. \<exists>r. (CreateObsAddon (ClusterNamespace d), r) \<in> set new1"
    "f1 = failed new1"
    "\<forall>c \<in> fst ` set new1. \<exists>d \<in> set decisions. c \<in> set (memberCalls ?mco ips d)"
    "cur = ?removed"
    by auto
  from deleteObaLoop_issued [OF l2] obtain new2 where n2:
    "trace st2 = trace st1 @ new2" "map fst new2 = map DeleteObsAddon cur" "f2 = failed new2"
    by auto
  have iss: "issued st st' = new1 @ new2"
    using n1(1) n2(1) res(1) by (simp add: issued_def)
  have dels: "fst ` set new2 = DeleteObsAddon ` set cur"
    using n2(2) by (metis image_set)
  show ?thesis
  proof (intro conjI)
    show "trace st' = trace st @ issued st st'"
      using n1(1) n2(1) res(1) iss by simp
    show "\<forall>d \<in> set decisions. \<exists>r. (CreateObsAddon (ClusterNamespace d), r) \<in> set (issued st st')"
      using n1(2) iss by auto
    show "\<forall>c \<in> set ?removed. \<exists>r. (DeleteObsAddon c, r) \<in> set (issued st st')"
    proof
      fix c assume "c \<in> set ?removed"
      then have "DeleteObsAddon c \<in> fst ` set new2" using dels n1(5) by simp
      then show "\<exists>r. (DeleteObsAddon c, r) \<in> set (issued st st')"
        using iss by force
    qed
    show "(err \<noteq> None) = failed (issued st st')"
      using res(2) n1(3) n2(3) iss by simp
    show "err = None \<or> err = Some (Failure failedMessage)"
      using res(2) by simp
    show "\<forall>c \<in> fst ` set (issued st st').
         (\<exists>d \<in> set decisions. c \<in> set (memberCalls ?mco ips d))
         \<or> (\<exists>m \<in> set ?removed. c = DeleteObsAddon m)"
    proof
      fix c assume "c \<in> fst ` set (issued st st')"
      then have "c \<in> fst ` set new1 \<or> c \<in> fst ` set new2"
        using iss by (auto simp: image_Un)
      then show "(\<exists>d \<in> set decisions. c \<in> set (memberCalls ?mco ips d))
         \<or> (\<exists>m \<in> set ?removed. c = DeleteObsAddon m)"
        using n1(4) dels n1(5) by auto
    qed
  qed
qed


theorem createAllRelatedRes_members_continue_on_error_witness:
  "fst (createAllRelatedRes_members
          (failingOn [CreateRolebindings ''cluster1'' ''cluster1'', DeleteObsAddon ''cluster3''])
          testDeps testMCO None [decision1, decision2] [addon1, addon3] (state0 ()))
     = Some (Failure failedMessage)
   \<and> map fst (issued (state0 ()) (snd (createAllRelatedRes_members
          (failingOn [CreateRolebindings ''cluster1'' ''cluster1'', DeleteObsAddon ''cluster3''])
          testDeps testMCO None [decision1, decision2] [addon1, addon3] (state0 ()))))
     = [CreateObsAddon ''cluster1'',
        CreateRolebindings ''cluster1'' ''cluster1'',
        CreateObsAddon ''cluster2'',
        CreateRolebindings ''cluster2'' ''cluster2'',
        CreateManifestWorks ''cluster2'' ''cluster2''
          (testMCO\<lparr>mco_Namespace := ''open-cluster-management-observability''\<rparr>) None,
        CreateManagedClusterAddonCR ''cluster2'',
        DeleteObsAddon ''cluster3'']
   \<and> failed (issued (state0 ()) (snd (createAllRelatedRes_members
          (failingOn [CreateRolebindings ''cluster1'' ''cluster1'', DeleteObsAddon ''cluster3''])
          testDeps testMCO None [decision1, decision2] [addon1, addon3] (state0 ()))))"
proof -
  let ?ex = "failingOn [CreateRolebindings ''cluster1'' ''cluster1'', DeleteObsAddon ''cluster3'']"
  let ?run = "createAllRelatedRes_members ?ex testDeps testMCO None [decision1, decision2]
                [addon1, addon3] (state0 ())"
  have tr: "map fst (trace (snd ?run))
     = [CreateObsAddon ''cluster1'',
        CreateRolebindings ''cluster1'' ''cluster1'',
        CreateObsAddon ''cluster2'',
        CreateRolebindings ''cluster2'' ''cluster2'',
        CreateManifestWorks ''cluster2'' ''cluster2''
          (testMCO\<lparr>mco_Namespace := ''open-cluster-management-observability''\<rparr>) None,
        CreateManagedClusterAddonCR ''cluster2'',
        DeleteObsAddon ''cluster3'']"
    by (simp add: createAllRelatedRes_members_def createManagedClusterRes_def invoke_def
          failingOn_def testDeps_def decision1_def decision2_def addon1_def addon3_def
          state0_def)
  have e: "fst ?run = Some (Failure failedMessage)"
    by (simp add: createAllRelatedRes_members_def createManagedClusterRes_def invoke_def
          failingOn_def testDeps_def decision1_def decision2_def addon1_def addon3_def
          state0_def)
  have run: "?run = (fst ?run, snd ?run)" by simp
  note T = createAllRelatedRes_members_continue_on_error [OF run]
  have i: "issued (state0 ()) (snd ?run) = trace (snd ?run)"
    using T by (simp add: state0_def)
  have f: "failed (issued (state0 ()) (snd ?run))"
    using T e by simp
  from tr e i f show ?thesis by simp
qed






text \<open>
  C5, as amended. A failure of either role deletion returns the error with both flags as
  they were. A failure of the deletion of the add-on registration returns the error with
  \<open>isClusterManagementAddonCreated\<close> as it was and \<open>isCRoleCreated\<close> already reset.
  \<open>deleteGlobalResource\<close> does not read the flags: whatever they are, it issues the
  same calls, starting with the deletion of the cluster role, so a later pass attempts the
  whole teardown again.
\<close>

theorem deleteGlobalResource_flags:
  "(\<forall>e st1. invoke ex DeleteClusterRole st = (Err e, st1) \<longrightarrow>
      deleteGlobalResource ex st = (Some e, st1)
      \<and> isCRoleCreated st1 = isCRoleCreated st
      \<and> isClusterManagementAddonCreated st1 = isClusterManagementAddonCreated st)
   \<and> (\<forall>v st1 e st2. invoke ex DeleteClusterRole st = (Ok v, st1)
        \<and> invoke ex DeleteResourceRole st1 = (Err e, st2) \<longrightarrow>
      deleteGlobalResource ex st = (Some e, st2)
      \<and> isCRoleCreated st2 = isCRoleCreated st
      \<and> isClusterManagementAddonCreated st2 = isClusterManagementAddonCreated st)
   \<and> (\<forall>v st1 v' st2 e st3. invoke ex DeleteClusterRole st = (Ok v, st1)
        \<and> invoke ex DeleteResourceRole st1 = (Ok v', st2)
        \<and> invoke ex DeleteClusterManagementAddon (st2\<lparr>isCRoleCreated := False\<rparr>) = (Err e, st3) \<longrightarrow>
      deleteGlobalResource ex st = (Some e, st3)
      \<and> \<not> isCRoleCreated st3
      \<and> isClusterManagementAddonCreated st3 = isClusterManagementAddonCreated st)
   \<and> fst (deleteGlobalResource ex (st\<lparr>isCRoleCreated := a, isClusterManagementAddonCreated := b\<rparr>))
       = fst (deleteGlobalResource ex st)
   \<and> trace (snd (deleteGlobalResource ex
          (st\<lparr>isCRoleCreated := a, isClusterManagementAddonCreated := b\<rparr>)))
       = trace (snd (deleteGlobalResource ex st))
   \<and> (\<exists>r rest. issued st (snd (deleteGlobalResource ex st)) = (DeleteClusterRole, r) # rest)"
proof (intro conjI allI impI)
  fix e st1
  assume a: "invoke ex DeleteClusterRole st = (Err e, st1)"
  then show "deleteGlobalResource ex st = (Some e, st1)"
    by (simp add: deleteGlobalResource_def)
  from invoke_flags [OF a]
  show "isCRoleCreated st1 = isCRoleCreated st"
    and "isClusterManagementAddonCreated st1 = isClusterManagementAddonCreated st"
    by simp_all
next
  fix v st1 e st2
  assume a: "invoke ex DeleteClusterRole st = (Ok v, st1)
        \<and> invoke ex DeleteResourceRole st1 = (Err e, st2)"
  then show "deleteGlobalResource ex st = (Some e, st2)"
    by (simp add: deleteGlobalResource_def)
  from a invoke_flags [of ex DeleteClusterRole st] invoke_flags [of ex DeleteResourceRole st1]
  show "isCRoleCreated st2 = isCRoleCreated st"
    and "isClusterManagementAddonCreated st2 = isClusterManagementAddonCreated st"
    by simp_all
next
  fix v st1 v' st2 e st3
  assume a: "invoke ex DeleteClusterRole st = (Ok v, st1)
        \<and> invoke ex DeleteResourceRole st1 = (Ok v', st2)
        \<and> invoke ex DeleteClusterManagementAddon (st2\<lparr>isCRoleCreated := False\<rparr>) = (Err e, st3)"
  then show "deleteGlobalResource ex st = (Some e, st3)"
    by (simp add: deleteGlobalResource_def)
  from a invoke_flags [of ex DeleteClusterRole st] invoke_flags [of ex DeleteResourceRole st1]
    invoke_flags [of ex DeleteClusterManagementAddon "st2\<lparr>isCRoleCreated := False\<rparr>"]
  show "\<not> isCRoleCreated st3"
    and "isClusterManagementAddonCreated st3 = isClusterManagementAddonCreated st"
    by simp_all
next
  show "fst (deleteGlobalResource ex (st\<lparr>isCRoleCreated := a, isClusterManagementAddonCreated := b\<rparr>))
       = fst (deleteGlobalResource ex st)"
    by (simp add: deleteGlobalResource_def invoke_def split: prod.splits reply.splits)
  show "trace (snd (deleteGlobalResource ex
          (st\<lparr>isCRoleCreated := a, isClusterManagementAddonCreated := b\<rparr>)))
       = trace (snd (deleteGlobalResource ex st))"
    by (simp add: deleteGlobalResource_def invoke_def split: prod.splits reply.splits)
  show "\<exists>r rest. issued st (snd (deleteGlobalResource ex st)) = (DeleteClusterRole, r) # rest"
    by (simp add: deleteGlobalResource_def invoke_def issued_def split: prod.splits reply.splits)
qed

theorem deleteGlobalResource_flags_witness:
  "deleteGlobalResource (failingOn [DeleteClusterManagementAddon]) (created ())
     = (Some (Failure ''injected''),
        \<lparr>world = (),
         trace = [(DeleteClusterRole, Ok NoVal), (DeleteResourceRole, Ok NoVal),
                  (DeleteClusterManagementAddon, Err (Failure ''injected''))],
         isCRoleCreated = False, isClusterManagementAddonCreated = True\<rparr>)
   \<and> deleteGlobalResource (failingOn [DeleteResourceRole]) (created ())
     = (Some (Failure ''injected''),
        \<lparr>world = (),
         trace = [(DeleteClusterRole, Ok NoVal), (DeleteResourceRole, Err (Failure ''injected''))],
         isCRoleCreated = True, isClusterManagementAddonCreated = True\<rparr>)
   \<and> deleteGlobalResource (failingOn [DeleteClusterRole]) (created ())
     = (Some (Failure ''injected''),
        \<lparr>world = (), trace = [(DeleteClusterRole, Err (Failure ''injected''))],
         isCRoleCreated = True, isClusterManagementAddonCreated = True\<rparr>)"
proof -
  let ?e = "Failure ''injected''"
  let ?s1 = "(created ())\<lparr>trace := [(DeleteClusterRole, Ok NoVal)]\<rparr>"
  let ?s2 = "(created ())\<lparr>trace := [(DeleteClusterRole, Ok NoVal), (DeleteResourceRole, Ok NoVal)]\<rparr>"
  let ?s3 = "\<lparr>world = (),
         trace = [(DeleteClusterRole, Ok NoVal), (DeleteResourceRole, Ok NoVal),
                  (DeleteClusterManagementAddon, Err ?e)],
         isCRoleCreated = False, isClusterManagementAddonCreated = True\<rparr>"
  let ?A = "failingOn [DeleteClusterManagementAddon]"
  have a1: "invoke ?A DeleteClusterRole (created ()) = (Ok NoVal, ?s1)"
    by (simp add: invoke_def failingOn_def created_def)
  have a2: "invoke ?A DeleteResourceRole ?s1 = (Ok NoVal, ?s2)"
    by (simp add: invoke_def failingOn_def created_def)
  have a3: "invoke ?A DeleteClusterManagementAddon (?s2\<lparr>isCRoleCreated := False\<rparr>) = (Err ?e, ?s3)"
    by (simp add: invoke_def failingOn_def created_def)
  have A: "deleteGlobalResource ?A (created ()) = (Some ?e, ?s3)"
    using deleteGlobalResource_flags [of ?A "created ()", THEN conjunct2, THEN conjunct2,
            THEN conjunct1, rule_format, of NoVal ?s1 NoVal ?s2 ?e ?s3] a1 a2 a3
    by simp
  let ?B = "failingOn [DeleteResourceRole]"
  let ?t2 = "\<lparr>world = (),
         trace = [(DeleteClusterRole, Ok NoVal), (DeleteResourceRole, Err ?e)],
         isCRoleCreated = True, isClusterManagementAddonCreated = True\<rparr>"
  have b1: "invoke ?B DeleteClusterRole (created ()) = (Ok NoVal, ?s1)"
    by (simp add: invoke_def failingOn_def created_def)
  have b2: "invoke ?B DeleteResourceRole ?s1 = (Err ?e, ?t2)"
    by (simp add: invoke_def failingOn_def created_def)
  have B: "deleteGlobalResource ?B (created ()) = (Some ?e, ?t2)"
    using deleteGlobalResource_flags [of ?B "created ()", THEN conjunct2, THEN conjunct1,
            rule_format, of NoVal ?s1 ?e ?t2] b1 b2
    by simp
  let ?C = "failingOn [DeleteClusterRole]"
  let ?u1 = "\<lparr>world = (), trace = [(DeleteClusterRole, Err ?e)],
         isCRoleCreated = True, isClusterManagementAddonCreated = True\<rparr>"
  have c1: "invoke ?C DeleteClusterRole (created ()) = (Err ?e, ?u1)"
    by (simp add: invoke_def failingOn_def created_def)
  have C: "deleteGlobalResource ?C (created ()) = (Some ?e, ?u1)"
    using deleteGlobalResource_flags [of ?C "created ()", THEN conjunct1, rule_format,
            of ?e ?u1] c1
    by simp
  from A B C show ?thesis by simp
qed

text \<open>
  C5 as stated does not hold: when the deletion of the add-on registration fails from a
  state with both flags set, the teardown returns the error and \<open>isCRoleCreated\<close> no
  longer records the created state.
\<close>

theorem deleteGlobalResource_flags_counterexample:
  "fst (deleteGlobalResource (failingOn [DeleteClusterManagementAddon]) (created ()))
     = Some (Failure ''injected'')
   \<and> isCRoleCreated (created ())
   \<and> isClusterManagementAddonCreated (created ())
   \<and> \<not> isCRoleCreated (snd (deleteGlobalResource (failingOn [DeleteClusterManagementAddon])
                              (created ())))"
  by (simp add: deleteGlobalResource_def invoke_def failingOn_def created_def)

text \<open>
  C9. When the cluster-scoped resources are in place and the read of the image-pull secret
  is answered with not-found, \<open>createAllRelatedRes\<close> goes on with the members and hands
  them no secret; and the bundle built without the secret holds exactly one manifest fewer
  than the bundle built with it.
\<close>

theorem createAllRelatedRes_without_pull_secret:
  "(\<forall>sb e sc. createAllRelatedRes_global ex st = (None, sb)
       \<and> invoke ex (GetSecret (req_Namespace request) (mco_ImagePullSecret mco)) sb = (Err e, sc)
       \<and> IsNotFound e \<longrightarrow>
       createAllRelatedRes ex D request mco decisions obsAddonList st
         = createAllRelatedRes_members ex D mco None decisions obsAddonList sc)
   \<and> length (bundleManifests rendered None) + 1 = length (bundleManifests rendered (Some pull))"
  by (simp add: createAllRelatedRes_def bundleManifests_def)

theorem createAllRelatedRes_without_pull_secret_witness:
  "createAllRelatedRes secretStore testDeps testRequest testMCO [decision1] [] (created [])
     = createAllRelatedRes_members secretStore testDeps testMCO None [decision1] []
         ((created [])\<lparr>trace := [(GetSecret ''open-cluster-management-observability''
                                     ''test-pull-secret'', Err NotFound)]\<rparr>)
   \<and> fst (createAllRelatedRes secretStore testDeps testRequest testMCO [decision1] [] (created []))
     = None
   \<and> length (bundleManifests [1, 2, 3, 4, 5, 6, 7, 8, 9, 10 :: nat] (Some testPullSecret)) = 11
   \<and> length (bundleManifests [1, 2, 3, 4, 5, 6, 7, 8, 9, 10 :: nat] None) = 10"
proof -
  let ?sc = "(created [])\<lparr>trace := [(GetSecret ''open-cluster-management-observability''
                                     ''test-pull-secret'', Err NotFound)]\<rparr>"
  note T = createAllRelatedRes_without_pull_secret
             [of secretStore "created []" testRequest testMCO testDeps "[decision1]" "[]"
                 "[1, 2, 3, 4, 5, 6, 7, 8, 9, 10 :: nat]" testPullSecret]
  have g: "createAllRelatedRes_global secretStore (created []) = (None, created [])"
    by (simp add: createAllRelatedRes_global_def created_def)
  have s: "invoke secretStore (GetSecret (req_Namespace testRequest) (mco_ImagePullSecret testMCO))
             (created []) = (Err NotFound, ?sc)"
    by (simp add: invoke_def secretStore_def testRequest_def testMCO_def created_def)
  have a: "createAllRelatedRes secretStore testDeps testRequest testMCO [decision1] [] (created [])
     = createAllRelatedRes_members secretStore testDeps testMCO None [decision1] [] ?sc"
    using T [THEN conjunct1, rule_format, of "created []" NotFound ?sc] g s
    by (simp add: IsNotFound_def)
  have b: "fst (createAllRelatedRes_members secretStore testDeps testMCO None [decision1] [] ?sc)
             = None"
    by (simp add: createAllRelatedRes_members_def createManagedClusterRes_def invoke_def
          secretStore_def testDeps_def decision1_def created_def)
  have c: "length (bundleManifests [1, 2, 3, 4, 5, 6, 7, 8, 9, 10 :: nat] None) = 10"
    by (simp add: bundleManifests_def)
  have d: "length (bundleManifests [1, 2, 3, 4, 5, 6, 7, 8, 9, 10 :: nat] (Some testPullSecret)) = 11"
    using T [THEN conjunct2] c by simp
  from a b c d show ?thesis by simp
qed



section \<open>certificates.go: properties\<close>

lemma dnsNames_nil: "dnsNames cn NilSlice = Return [cn]"
  by (simp add: dnsNames_def)

lemma dnsNames_nonempty: "dnsNames cn (Slice (x # xs) spare) = Return (cn # x # xs)"
  by (simp add: dnsNames_def)

lemma dnsNames_spare: "dnsNames cn (Slice [] (z # zs)) = Return [cn]"
  by (simp add: dnsNames_def)

lemma dnsNames_returns:
  assumes "dnsNames cn dns = Return names"
  shows "names = cn # elems dns"
proof (cases dns)
  case NilSlice
  then show ?thesis using assms by (simp add: dnsNames_def)
next
  case (Slice xs spare)
  show ?thesis
  proof (cases xs)
    case Nil
    with Slice assms show ?thesis
      by (cases spare) (auto simp: dnsNames_def split: if_splits)
  next
    case (Cons y ys)
    with Slice assms show ?thesis by (simp add: dnsNames_def)
  qed
qed

lemma now_trace: "now ex st = (t, st') \<Longrightarrow> trace st' = trace st @ [(TimeNow, fst (ex TimeNow (world st)))]"
  by (auto simp: now_def invoke_def split: prod.splits reply.splits val.splits)

lemma createCertificate_template:
  assumes run: "createCertificate ex D isServer cn ou dns ips caCert caKey key st = (Return (Inr kc), st')"
  shows "\<exists>template k r. (X509CreateCertificate template caCert k caKey, r) \<in> set (issued st st')
           \<and> DNSNames template = cn # elems dns
           \<and> IPAddresses template = elems ips
           \<and> CommonName (Subject template) = cn"
proof -
  obtain sn st1 where a: "invoke ex RandInt st = (Ok sn, st1)"
    using run by (auto simp: createCertificate_def split: prod.splits reply.splits)
  obtain nb st2 where b: "now ex st1 = (nb, st2)" by (metis surj_pair)
  obtain t st3 where c: "now ex st2 = (t, st3)" by (metis surj_pair)
  obtain names where d: "dnsNames cn dns = Return names"
    using run a b c by (auto simp: createCertificate_def split: outcome.splits)
  let ?cert = "\<lparr>SerialNumber = nat_of sn,
     Subject = \<lparr>Organization = [''Red Hat, Inc.''], Country = [''US''],
                OrganizationalUnit = elems ou, CommonName = cn\<rparr>,
     NotBefore = nb, NotAfter = AddDate t 1 0 0, IsCA = False,
     KeyUsage = [KeyUsageDigitalSignature, KeyUsageKeyEncipherment],
     ExtKeyUsage = (if \<not> isServer then [ExtKeyUsageClientAuth] else [ExtKeyUsageServerAuth]),
     BasicConstraintsValid = False, DNSNames = names, IPAddresses = elems ips\<rparr>"
  let ?keystep = "(case key of
       None \<Rightarrow> (case invoke ex (GenerateKey 2048) st3 of
                  (Err err, st4) \<Rightarrow> (Inl err, st4)
                | (Ok k, st4) \<Rightarrow> (Inr (key_of k), st4))
     | Some k \<Rightarrow> (Inr k, st3))"
  have unfolded: "createCertificate ex D isServer cn ou dns ips caCert caKey key st =
    (case ?keystep of
       (Inl err, st4) \<Rightarrow> (Return (Inl err), st4)
     | (Inr k, st4) \<Rightarrow>
         (case invoke ex (X509CreateCertificate ?cert caCert k caKey) st4 of
            (Err err, st5) \<Rightarrow> (Return (Inl err), st5)
          | (Ok caBytes, st5) \<Rightarrow>
              (Return (Inr (x509_MarshalPKCS1PrivateKey D k, bytes_of caBytes)), st5)))"
    by (simp add: createCertificate_def a b c d Let_def del: One_nat_def split del: if_split cong: if_cong)
  obtain k st4 where ks: "?keystep = (Inr k, st4)"
    using run unfolded by (cases ?keystep) (auto split: sum.splits)
  obtain cb where x: "invoke ex (X509CreateCertificate ?cert caCert k caKey) st4 = (Ok cb, st')"
    using run unfolding unfolded ks by (auto split: prod.splits reply.splits)
  have t3: "\<exists>pre. trace st3 = trace st @ pre"
    using invoke_trace [OF a] now_trace [OF b] now_trace [OF c] by simp
  have t4: "\<exists>pre. trace st4 = trace st3 @ pre"
    using ks by (auto dest: invoke_trace split: option.splits prod.splits reply.splits)
  from t3 t4 obtain pre where pre: "trace st4 = trace st @ pre" by auto
  from invoke_trace [OF x] pre
  have "issued st st' = pre @ [(X509CreateCertificate ?cert caCert k caKey, Ok cb)]"
    by (simp add: issued_def)
  then have "(X509CreateCertificate ?cert caCert k caKey, Ok cb) \<in> set (issued st st')"
    by simp
  moreover have "DNSNames ?cert = cn # elems dns" "IPAddresses ?cert = elems ips"
    "CommonName (Subject ?cert) = cn"
    using dnsNames_returns [OF d] by simp_all
  ultimately show ?thesis by blast
qed

text \<open>
  C8 asks that for every non-nil list of DNS names the certificate has the common name
  first. \<open>createCertificate_template\<close> above shows it for every list the function
  returns on. For the list that is not nil and has neither elements nor capacity (Go's
  \<open>[]string{}\<close>) the function does not return: once the serial number has been drawn,
  \<open>dns[:1]\<close> panics.
\<close>

theorem createCertificate_empty_dns_panics:
  "invoke ex RandInt st = (Ok sn, st1) \<Longrightarrow>
   fst (createCertificate ex D isServer cn ou (Slice [] []) ips caCert caKey key st) = Panic"
  by (simp add: createCertificate_def dnsNames_def split: prod.splits)

theorem createCertificate_empty_dns_panics_witness:
  "invoke secretStore RandInt (state0 []) = (Ok (IntVal 42), (state0 [])\<lparr>trace := [(RandInt, Ok (IntVal 42))]\<rparr>)
   \<and> fst (createCertificate secretStore testDeps True ''observability-server-certificate''
            NilSlice (Slice [] []) NilSlice testCACert (RSAKey 1) None (state0 [])) = Panic"
proof -
  have a: "invoke secretStore RandInt (state0 [])
             = (Ok (IntVal 42), (state0 [])\<lparr>trace := [(RandInt, Ok (IntVal 42))]\<rparr>)"
    by (simp add: invoke_def secretStore_def state0_def)
  from createCertificate_empty_dns_panics [OF a] a show ?thesis by blast
qed

lemma createCASecret_renew_unparsable_key:
  assumes "invoke ex (GetSecret (defaultNamespace D) name) st = (Ok v, st1)"
    and "pem_Decode D (data_at (sec_Data (secret_of v)) ''tls.key'') = Some block"
    and "x509_ParsePKCS1PrivateKey D block = Inl e"
  shows "createCASecret ex D mco True name cn st =
           (case createCACertificate ex D cn None st1 of
              (Inl err, st2) \<Rightarrow> (Return (Some err), st2)
            | (Inr (key, cert), st2) \<Rightarrow>
                (case data_store (sec_Data (secret_of v)) (pem_Encode D ''CERTIFICATE'' cert)
                        (pem_Encode D ''CERTIFICATE'' cert) (pem_Encode D ''RSA PRIVATE KEY'' key) of
                   Panic \<Rightarrow> (Panic, st2)
                 | Return d \<Rightarrow>
                     (case invoke ex (UpdateSecret ((secret_of v)\<lparr>sec_Data := d\<rparr>)) st2 of
                        (Err err, st3) \<Rightarrow> (Return (Some err), st3)
                      | (Ok u, st3) \<Rightarrow> (Return None, st3))))"
  using assms
  by (simp add: createCASecret_def pemEncode_def Let_def split: prod.splits sum.splits)

text \<open>
  C1 asks that a renewal never crashes, whatever the bytes of \<open>tls.key\<close>.
  \<open>createCASecret_renew_unparsable_key\<close> above shows the recovery when the bytes hold a
  PEM block that is no key. When \<open>pem.Decode\<close> finds no block in them it returns nil, and
  the renewal of an authority secret, and that of a leaf secret once its authority has been
  read, panics on \<open>block.Bytes\<close>.
\<close>

theorem renew_nil_block_panics:
  "(\<forall>v st1. invoke ex (GetSecret (defaultNamespace D) name) st = (Ok v, st1)
       \<and> pem_Decode D (data_at (sec_Data (secret_of v)) ''tls.key'') = None \<longrightarrow>
       createCASecret ex D mco True name cn st = (Panic, st1))
   \<and> (\<forall>v st1 ca st2. invoke ex (GetSecret (defaultNamespace D) name) st = (Ok v, st1)
       \<and> getCA ex D isServer st1 = (Return (Inr ca), st2)
       \<and> pem_Decode D (data_at (sec_Data (secret_of v)) ''tls.key'') = None \<longrightarrow>
       createCertSecret ex D mco True name isServer cn ou dns ips st = (Panic, st2))"
  by (auto simp: createCASecret_def createCertSecret_def)

theorem renew_nil_block_panics_witness:
  "fst (createCASecret secretStore testDeps testMCO True ''observability-server-ca-certs''
          ''observability-server-ca-certificate'' (state0 [brokenKeySecret])) = Panic
   \<and> fst (createCertSecret secretStore testDeps testMCO True ''observability-server-certs'' True
          ''observability-server-certificate'' NilSlice NilSlice NilSlice
          (state0 [goodCASecret, brokenLeafSecret])) = Panic
   \<and> data_at (sec_Data brokenKeySecret) ''tls.key'' = ''test-tls-key''"
proof -
  let ?ns = "''open-cluster-management-observability''"
  note T = renew_nil_block_panics
  let ?s1 = "(state0 [brokenKeySecret])\<lparr>trace :=
               [(GetSecret ?ns ''observability-server-ca-certs'', Ok (SecretVal brokenKeySecret))]\<rparr>"
  have g: "invoke secretStore (GetSecret (defaultNamespace testDeps) ''observability-server-ca-certs'')
             (state0 [brokenKeySecret]) = (Ok (SecretVal brokenKeySecret), ?s1)"
    by (simp add: invoke_def secretStore_def testDeps_def brokenKeySecret_def state0_def)
  have d: "pem_Decode testDeps (data_at (sec_Data (secret_of (SecretVal brokenKeySecret))) ''tls.key'')
             = None"
    by (simp add: testDeps_def data_at_def brokenKeySecret_def)
  have a: "createCASecret secretStore testDeps testMCO True ''observability-server-ca-certs''
             ''observability-server-ca-certificate'' (state0 [brokenKeySecret]) = (Panic, ?s1)"
    using T [of secretStore testDeps "''observability-server-ca-certs''" "state0 [brokenKeySecret]",
             THEN conjunct1, rule_format, of "SecretVal brokenKeySecret" ?s1] g d
    by simp
  let ?w = "[goodCASecret, brokenLeafSecret]"
  let ?t1 = "(state0 ?w)\<lparr>trace :=
               [(GetSecret ?ns ''observability-server-certs'', Ok (SecretVal brokenLeafSecret))]\<rparr>"
  let ?t2 = "(state0 ?w)\<lparr>trace :=
               [(GetSecret ?ns ''observability-server-certs'', Ok (SecretVal brokenLeafSecret)),
                (GetSecret ?ns ''observability-server-ca-certs'', Ok (SecretVal goodCASecret))]\<rparr>"
  have g2: "invoke secretStore (GetSecret (defaultNamespace testDeps) ''observability-server-certs'')
             (state0 ?w) = (Ok (SecretVal brokenLeafSecret), ?t1)"
    by (simp add: invoke_def secretStore_def testDeps_def brokenLeafSecret_def goodCASecret_def
          state0_def)
  have ca: "getCA secretStore testDeps True ?t1
             = (Return (Inr (goodCASecret, testCACert, RSAKey 1)), ?t2)"
    by (simp add: getCA_def invoke_def secretStore_def testDeps_def brokenLeafSecret_def
          goodCASecret_def state0_def data_at_def Let_def)
  have d2: "pem_Decode testDeps (data_at (sec_Data (secret_of (SecretVal brokenLeafSecret))) ''tls.key'')
             = None"
    by (simp add: testDeps_def data_at_def brokenLeafSecret_def)
  have b: "createCertSecret secretStore testDeps testMCO True ''observability-server-certs'' True
          ''observability-server-certificate'' NilSlice NilSlice NilSlice (state0 ?w) = (Panic, ?t2)"
    using T [of secretStore testDeps "''observability-server-certs''" "state0 ?w",
             THEN conjunct2, rule_format,
             of "SecretVal brokenLeafSecret" ?t1 True "(goodCASecret, testCACert, RSAKey 1)" ?t2]
          g2 ca d2
    by simp
  have c: "data_at (sec_Data brokenKeySecret) ''tls.key'' = ''test-tls-key''"
    by (simp add: data_at_def brokenKeySecret_def)
  from a b c show ?thesis by simp
qed



end
